theory Spec2Isabelle
  imports Main "HOL-Library.Char_ord" "HOL-Library.List_Lexorder"
begin

section \<open>JavaScript strings\<close>

text \<open>
  Strings are \<^typ>\<open>string\<close>. Statement texts, role names and messages are taken to be
  ASCII: \<open>String.prototype.trim\<close> and \<open>toUpperCase\<close> are modelled on the ASCII
  range, where \<open>trim\<close> strips tab, line feed, vertical tab, form feed, carriage return
  and space, and \<open>toUpperCase\<close> maps \<open>a..z\<close> to \<open>A..Z\<close>.
\<close>

definition isWhiteSpace :: "char \<Rightarrow> bool" where
  "isWhiteSpace c = (c \<in> set [CHR 0x09, CHR 0x0A, CHR 0x0B, CHR 0x0C, CHR 0x0D, CHR '' ''])"

definition trim :: "string \<Rightarrow> string" where
  "trim s = rev (dropWhile isWhiteSpace (rev (dropWhile isWhiteSpace s)))"

definition toUpperChar :: "char \<Rightarrow> char" where
  "toUpperChar c =
     (case map_of (zip ''abcdefghijklmnopqrstuvwxyz'' ''ABCDEFGHIJKLMNOPQRSTUVWXYZ'') c of
        Some u \<Rightarrow> u
      | None \<Rightarrow> c)"

definition toUpperCase :: "string \<Rightarrow> string" where
  "toUpperCase s = map toUpperChar s"

text \<open>\<open>s.startsWith(p)\<close>\<close>

fun startsWith :: "string \<Rightarrow> string \<Rightarrow> bool" where
  "startsWith s [] = True"
| "startsWith [] (p # ps) = False"
| "startsWith (c # cs) (p # ps) = (c = p \<and> startsWith cs ps)"

text \<open>\<open>s.includes(sub)\<close>: \<open>sub\<close> occurs in \<open>s\<close> at some position.\<close>

fun includes_str :: "string \<Rightarrow> string \<Rightarrow> bool" where
  "includes_str [] sub = (sub = [])"
| "includes_str (c # cs) sub = (startsWith (c # cs) sub \<or> includes_str cs sub)"


section \<open>Role policy (config/roles.js)\<close>

record role_permissions =
  allowedStatements :: "string list"
  maxRows :: nat
  queryTimeoutMs :: nat
  canCancelQueries :: bool
  canViewHistory :: bool
  canManageUsers :: bool
  canManageConnections :: bool

definition VIEWER :: string where "VIEWER = ''VIEWER''"
definition ANALYST :: string where "ANALYST = ''ANALYST''"
definition DEVELOPER :: string where "DEVELOPER = ''DEVELOPER''"
definition ADMIN :: string where "ADMIN = ''ADMIN''"

definition ROLES :: "string list" where
  "ROLES = [VIEWER, ANALYST, DEVELOPER, ADMIN]"

definition VIEWER_PERMISSIONS :: role_permissions where
  "VIEWER_PERMISSIONS =
     \<lparr> allowedStatements = [''SELECT''], maxRows = 1000, queryTimeoutMs = 30000,
       canCancelQueries = True, canViewHistory = True,
       canManageUsers = False, canManageConnections = False \<rparr>"

definition ANALYST_PERMISSIONS :: role_permissions where
  "ANALYST_PERMISSIONS =
     \<lparr> allowedStatements = [''SELECT'', ''INSERT'', ''UPDATE''], maxRows = 5000,
       queryTimeoutMs = 60000,
       canCancelQueries = True, canViewHistory = True,
       canManageUsers = False, canManageConnections = False \<rparr>"

definition DEVELOPER_PERMISSIONS :: role_permissions where
  "DEVELOPER_PERMISSIONS =
     \<lparr> allowedStatements = [''SELECT'', ''INSERT'', ''UPDATE'', ''DELETE'', ''MERGE''],
       maxRows = 10000, queryTimeoutMs = 120000,
       canCancelQueries = True, canViewHistory = True,
       canManageUsers = False, canManageConnections = False \<rparr>"

definition ADMIN_PERMISSIONS :: role_permissions where
  "ADMIN_PERMISSIONS =
     \<lparr> allowedStatements = [''*''], maxRows = 50000, queryTimeoutMs = 300000,
       canCancelQueries = True, canViewHistory = True,
       canManageUsers = True, canManageConnections = True \<rparr>"

text \<open>The object \<open>ROLE_PERMISSIONS\<close>, looked up by its own keys.\<close>

definition ROLE_PERMISSIONS :: "string \<rightharpoonup> role_permissions" where
  "ROLE_PERMISSIONS =
     [VIEWER \<mapsto> VIEWER_PERMISSIONS, ANALYST \<mapsto> ANALYST_PERMISSIONS,
      DEVELOPER \<mapsto> DEVELOPER_PERMISSIONS, ADMIN \<mapsto> ADMIN_PERMISSIONS]"

definition getRolePermissions :: "string \<Rightarrow> role_permissions" where
  "getRolePermissions role =
     (case ROLE_PERMISSIONS role of
        Some p \<Rightarrow> p
      | None \<Rightarrow> VIEWER_PERMISSIONS)"

definition isValidRole :: "string \<Rightarrow> bool" where
  "isValidRole role = (role \<in> set ROLES)"

text \<open>
  The result object of \<open>canExecuteStatement\<close>: \<open>{allowed: true}\<close>,
  \<open>{allowed: true, statement}\<close> or \<open>{allowed: false, reason}\<close>.
\<close>

datatype permission_check = Allowed "string option" | Denied string

fun allowed :: "permission_check \<Rightarrow> bool" where
  "allowed (Allowed _) = True"
| "allowed (Denied _) = False"

definition ddlKeywords :: "string list" where
  "ddlKeywords =
     [''CREATE'', ''ALTER'', ''DROP'', ''TRUNCATE'', ''GRANT'', ''REVOKE'', ''EXECUTE'', ''EXEC'']"

definition keyword_reason :: "string \<Rightarrow> string \<Rightarrow> string" where
  "keyword_reason role keyword =
     ''Role '' @ role @ '' is not permitted to execute '' @ keyword @ '' statements''"

definition generic_reason :: "string \<Rightarrow> string" where
  "generic_reason role = ''Role '' @ role @ '' is not permitted to execute this type of query''"

text \<open>
  Each \<open>for ... of\<close> loop returns at the first element the statement starts with:
  \<^const>\<open>find\<close>.
\<close>

definition canExecuteStatement :: "string \<Rightarrow> string \<Rightarrow> permission_check" where
  "canExecuteStatement role sql =
     (let permissions = getRolePermissions role in
      if ''*'' \<in> set (allowedStatements permissions) then Allowed None
      else
        let normalizedSql = toUpperCase (trim sql) in
        case find (startsWith normalizedSql) (allowedStatements permissions) of
          Some statement \<Rightarrow> Allowed (Some statement)
        | None \<Rightarrow>
            (case find (startsWith normalizedSql) ddlKeywords of
               Some keyword \<Rightarrow> Denied (keyword_reason role keyword)
             | None \<Rightarrow> Denied (generic_reason role)))"

text \<open>
  The leading token of a statement, as the specification speaks of it: the characters
  before the first white space.
\<close>

definition leading_token :: "string \<Rightarrow> string" where
  "leading_token s = takeWhile (\<lambda>c. \<not> isWhiteSpace c) s"


section \<open>Errors\<close>

text \<open>
  A thrown value: the \<open>name\<close>, \<open>message\<close> and \<open>status\<close> properties of the error
  object. \<open>new Error(m)\<close> has the name \<open>Error\<close> and no status.
\<close>

datatype js_error = JsError (error_name: string) (message: string) (error_status: "nat option")

definition new_Error :: "string \<Rightarrow> js_error" where
  "new_Error m = JsError ''Error'' m None"


section \<open>History ledger (models/QueryHistory.js)\<close>

text \<open>
  The table \<open>query_history\<close> is a list of rows in insertion order; a column holds an SQL
  value. The columns are those of the \<open>CREATE TABLE\<close> statement; \<open>id\<close> and \<open>sql\<close>
  are named \<open>id_col\<close> and \<open>sql_col\<close> here. The store is taken to accept every
  \<open>UPDATE\<close>, \<open>SELECT\<close> and \<open>DELETE\<close> it is sent; whether it accepts the \<open>INSERT\<close>
  of \<open>create\<close> is an input. Type affinities are not modelled.
\<close>

datatype sql_value = Null | Integer int | Text string

record query_history_row =
  id_col :: sql_value
  user_id :: sql_value
  connection_id :: sql_value
  sql_col :: sql_value
  status :: sql_value
  row_count :: sql_value
  execution_time_ms :: sql_value
  error_message :: sql_value
  created_at :: sql_value
  cancelled_at :: sql_value

type_synonym query_history_table = "query_history_row list"

text \<open>\<open>UPDATE ... SET column = ?\<close> on one row: any of the ten columns can be assigned.\<close>

definition set_column :: "string \<Rightarrow> sql_value \<Rightarrow> query_history_row \<Rightarrow> query_history_row" where
  "set_column col v r =
     (if col = ''id'' then r\<lparr>id_col := v\<rparr>
      else if col = ''user_id'' then r\<lparr>user_id := v\<rparr>
      else if col = ''connection_id'' then r\<lparr>connection_id := v\<rparr>
      else if col = ''sql'' then r\<lparr>sql_col := v\<rparr>
      else if col = ''status'' then r\<lparr>status := v\<rparr>
      else if col = ''row_count'' then r\<lparr>row_count := v\<rparr>
      else if col = ''execution_time_ms'' then r\<lparr>execution_time_ms := v\<rparr>
      else if col = ''error_message'' then r\<lparr>error_message := v\<rparr>
      else if col = ''created_at'' then r\<lparr>created_at := v\<rparr>
      else if col = ''cancelled_at'' then r\<lparr>cancelled_at := v\<rparr>
      else r)"

fun set_columns :: "(string \<times> sql_value) list \<Rightarrow> query_history_row \<Rightarrow> query_history_row" where
  "set_columns [] r = r"
| "set_columns ((col, v) # cs) r = set_columns cs (set_column col v r)"

text \<open>\<open>UPDATE query_history SET ... WHERE id = ?\<close>\<close>

definition sql_update_where_id ::
  "(string \<times> sql_value) list \<Rightarrow> string \<Rightarrow> query_history_table \<Rightarrow> query_history_table" where
  "sql_update_where_id setClauses i tbl =
     map (\<lambda>r. if id_col r = Text i then set_columns setClauses r else r) tbl"

text \<open>\<open>SELECT * FROM query_history WHERE id = ?\<close>\<close>

definition sql_select_where_id :: "string \<Rightarrow> query_history_table \<Rightarrow> query_history_row list" where
  "sql_select_where_id i tbl = filter (\<lambda>r. id_col r = Text i) tbl"

text \<open>
  \<open>created_at < ?\<close> against a text parameter: text compares byte by byte, a number sorts
  before every text, and a comparison with \<open>NULL\<close> selects nothing.
\<close>

fun sql_less_text :: "sql_value \<Rightarrow> string \<Rightarrow> bool" where
  "sql_less_text (Text a) b = (a < b)"
| "sql_less_text (Integer n) b = True"
| "sql_less_text Null b = False"

text \<open>
  \<open>create\<close>: the identifier \<open>uuidv4()\<close> and the time \<open>new Date().toISOString()\<close> are
  inputs, and \<open>rowCount\<close>, \<open>executionTimeMs\<close> and \<open>errorMessage\<close> have their default
  \<open>null\<close>. The store either accepts the \<open>INSERT\<close> or throws (a violated foreign key,
  a store that cannot be reached): its answer to the row is the input \<open>db_insert\<close>.
  When it throws, \<open>create\<close> throws the same error and the table is as before; otherwise
  the row is appended. The object returned repeats the arguments; it is represented by
  its \<open>id\<close>, the one property its callers read.
\<close>

definition inserted_row ::
  "string \<Rightarrow> string \<Rightarrow> string \<Rightarrow> string \<Rightarrow> string \<Rightarrow> string \<Rightarrow> query_history_row" where
  "inserted_row uuid createdAt uid cid sqlText st =
     \<lparr> id_col = Text uuid, user_id = Text uid, connection_id = Text cid,
       sql_col = Text sqlText, status = Text st, row_count = Null,
       execution_time_ms = Null, error_message = Null,
       created_at = Text createdAt, cancelled_at = Null \<rparr>"

definition QueryHistoryModel_create ::
  "(query_history_row \<Rightarrow> js_error option) \<Rightarrow>
   string \<Rightarrow> string \<Rightarrow> string \<Rightarrow> string \<Rightarrow> string \<Rightarrow> string \<Rightarrow>
   query_history_table \<Rightarrow> js_error + string \<times> query_history_table" where
  "QueryHistoryModel_create db_insert uuid createdAt uid cid sqlText st tbl =
     (case db_insert (inserted_row uuid createdAt uid cid sqlText st) of
        Some err \<Rightarrow> Inl err
      | None \<Rightarrow> Inr (uuid, tbl @ [inserted_row uuid createdAt uid cid sqlText st]))"

definition findById :: "string \<Rightarrow> query_history_table \<Rightarrow> query_history_row option" where
  "findById i tbl =
     (case sql_select_where_id i tbl of
        [] \<Rightarrow> None
      | r # _ \<Rightarrow> Some r)"

definition allowedFields :: "string list" where
  "allowedFields = [''status'', ''rowCount'', ''executionTimeMs'', ''errorMessage'', ''cancelledAt'']"

definition toLowerChar :: "char \<Rightarrow> char" where
  "toLowerChar c =
     (case map_of (zip ''ABCDEFGHIJKLMNOPQRSTUVWXYZ'' ''abcdefghijklmnopqrstuvwxyz'') c of
        Some l \<Rightarrow> l
      | None \<Rightarrow> c)"

text \<open>\<open>_toSnakeCase\<close>: every letter of \<open>A..Z\<close> becomes an underscore and its lower case.\<close>

definition toSnakeCase :: "string \<Rightarrow> string" where
  "toSnakeCase str =
     concat (map (\<lambda>c. if c \<in> set ''ABCDEFGHIJKLMNOPQRSTUVWXYZ''
                       then [CHR ''_'', toLowerChar c] else [c]) str)"

text \<open>The loop over \<open>Object.entries(updates)\<close> that collects \<open>setClauses\<close> and \<open>args\<close>.\<close>

fun collect_setClauses :: "(string \<times> sql_value) list \<Rightarrow> (string \<times> sql_value) list" where
  "collect_setClauses [] = []"
| "collect_setClauses ((key, v) # es) =
     (if key \<in> set allowedFields
      then (toSnakeCase key, v) # collect_setClauses es
      else collect_setClauses es)"

definition QueryHistoryModel_update ::
  "string \<Rightarrow> (string \<times> sql_value) list \<Rightarrow> query_history_table \<Rightarrow>
   query_history_row option \<times> query_history_table" where
  "QueryHistoryModel_update i updates tbl =
     (let setClauses = collect_setClauses updates in
      if length setClauses = 0 then (findById i tbl, tbl)
      else
        let tbl' = sql_update_where_id setClauses i tbl
        in (findById i tbl', tbl'))"

text \<open>
  \<open>deleteOlderThan\<close>: the cutoff \<open>cutoffDate.toISOString()\<close>, the current time moved back
  by \<open>days\<close> calendar days, is computed by the function \<open>cutoffOf\<close> of the clock. The
  result is \<open>rowsAffected\<close> and the table that remains.
\<close>

definition deleteOlderThan ::
  "(nat \<Rightarrow> string) \<Rightarrow> nat \<Rightarrow> query_history_table \<Rightarrow> nat \<times> query_history_table" where
  "deleteOlderThan cutoffOf days tbl =
     (let cutoffDate = cutoffOf days
      in (length (filter (\<lambda>r. sql_less_text (created_at r) cutoffDate) tbl),
          filter (\<lambda>r. \<not> sql_less_text (created_at r) cutoffDate) tbl))"

text \<open>
  The identity of a record: its identifier, user, connection, statement text and
  creation time.
\<close>

definition same_identity :: "query_history_row \<Rightarrow> query_history_row \<Rightarrow> bool" where
  "same_identity r r' =
     (id_col r' = id_col r \<and> user_id r' = user_id r \<and> connection_id r' = connection_id r
      \<and> sql_col r' = sql_col r \<and> created_at r' = created_at r)"

text \<open>The terminal statuses of the specification.\<close>

definition is_terminal :: "sql_value \<Rightarrow> bool" where
  "is_terminal st = (st \<in> set [Text ''success'', Text ''error'', Text ''cancelled''])"

text \<open>
  One record before and after some steps: its identity is kept, and if its status was
  terminal it still is.
\<close>

definition keeps_terminal :: "query_history_row \<Rightarrow> query_history_row \<Rightarrow> bool" where
  "keeps_terminal r r' =
     (same_identity r r' \<and> (is_terminal (status r) \<longrightarrow> is_terminal (status r')))"


section \<open>Connection pool registry (config/database.js)\<close>

text \<open>
  A connection configuration as the registry reads it: the properties \<open>server\<close> and
  \<open>database\<close>, each possibly \<open>undefined\<close>. A template literal prints \<open>undefined\<close> as
  the word itself.
\<close>

record connection_config =
  server :: "string option"
  database :: "string option"

definition template_str :: "string option \<Rightarrow> string" where
  "template_str v = (case v of Some x \<Rightarrow> x | None \<Rightarrow> ''undefined'')"

definition poolKey :: "connection_config \<Rightarrow> string" where
  "poolKey connectionConfig =
     template_str (server connectionConfig) @ ''_'' @ template_str (database connectionConfig)"

text \<open>
  Objects live in a store and are named by references: \<open>pools\<close> holds the
  \<open>ConnectionPool\<close> objects, \<open>requests\<close> the \<open>Request\<close> objects, and \<open>next_ref\<close> is
  the next unused reference. \<open>sqlPools\<close> and \<open>runningQueries\<close> are the two module-level
  \<open>Map\<close>s, and \<open>query_history\<close> is the table of the metadata store.
\<close>

record pool_obj =
  pool_config :: connection_config
  connected :: bool

record request_obj =
  req_pool :: nat
  req_timeout :: "nat option"
  req_cancelled :: bool

record running_entry =
  request :: nat
  userId :: string
  connectionId :: string

record broker_state =
  query_history :: query_history_table
  runningQueries :: "string \<rightharpoonup> running_entry"
  sqlPools :: "string \<rightharpoonup> nat"
  pools :: "nat \<rightharpoonup> pool_obj"
  requests :: "nat \<rightharpoonup> request_obj"
  next_ref :: nat

definition getSqlPool :: "connection_config \<Rightarrow> broker_state \<Rightarrow> nat option" where
  "getSqlPool connectionConfig s = sqlPools s (poolKey connectionConfig)"

definition setSqlPool :: "connection_config \<Rightarrow> nat \<Rightarrow> broker_state \<Rightarrow> broker_state" where
  "setSqlPool connectionConfig pool s =
     s\<lparr>sqlPools := (sqlPools s)(poolKey connectionConfig \<mapsto> pool)\<rparr>"


section \<open>The SQL service (services/SqlService.js)\<close>

text \<open>
  What the service reads from outside itself: the identifier and the clock, the
  metadata store's answer to the \<open>INSERT\<close> of \<open>create\<close> (\<open>insert_history\<close>), the
  credential vault (\<open>ConnectionModel.getDecryptedConfig\<close>), and the driver:
  \<open>pool.connect()\<close>, \<open>pool.request()\<close> (\<open>new_request\<close>, given the pool),
  \<open>request.setTimeout(ms)\<close> (\<open>setTimeout\<close>, given the milliseconds) and
  \<open>request.query(sql)\<close>. Each call either returns or throws; for a call that returns
  nothing, \<open>None\<close> means that it returned and \<open>Some err\<close> that it threw \<open>err\<close>.
\<close>

record 'r recordset_obj =
  rows :: "'r list"
  columns :: "string list"

record 'r driver_result =
  recordset :: "'r recordset_obj option"

record 'r env =
  uuidv4 :: string
  nowISO :: string
  startTime :: int
  endTime :: int
  insert_history :: "query_history_row \<Rightarrow> js_error option"
  getDecryptedConfig :: "string \<Rightarrow> js_error + connection_config"
  connect :: "connection_config \<Rightarrow> js_error option"
  new_request :: "nat \<Rightarrow> js_error option"
  setTimeout :: "nat \<Rightarrow> js_error option"
  query :: "string \<Rightarrow> js_error + 'r driver_result"

text \<open>\<open>existingPool && existingPool.connected\<close>\<close>

definition connected_pool :: "nat option \<Rightarrow> broker_state \<Rightarrow> nat option" where
  "connected_pool existingPool s =
     (case existingPool of
        None \<Rightarrow> None
      | Some ref \<Rightarrow>
          (case pools s ref of
             None \<Rightarrow> None
           | Some p \<Rightarrow> if connected p then Some ref else None))"

text \<open>
  \<open>_getOrCreatePool\<close>. The lookup passes the object \<open>{ server: connectionId }\<close>; the
  registration passes the decrypted configuration.
\<close>

definition getOrCreatePool ::
  "'r env \<Rightarrow> string \<Rightarrow> broker_state \<Rightarrow> (js_error + nat) \<times> broker_state" where
  "getOrCreatePool env cid s =
     (let existingPool = getSqlPool \<lparr>server = Some cid, database = None\<rparr> s in
      case connected_pool existingPool s of
        Some ref \<Rightarrow> (Inr ref, s)
      | None \<Rightarrow>
          (case getDecryptedConfig env cid of
             Inl err \<Rightarrow> (Inl err, s)
           | Inr config \<Rightarrow>
               let pool = next_ref s;
                   s1 = s\<lparr>pools := (pools s)(pool \<mapsto> \<lparr>pool_config = config, connected = False\<rparr>),
                          next_ref := Suc (next_ref s)\<rparr>
               in case connect env config of
                    Some err \<Rightarrow> (Inl err, s1)
                  | None \<Rightarrow>
                      let s2 = s1\<lparr>pools := (pools s1)(pool \<mapsto>
                                     \<lparr>pool_config = config, connected = True\<rparr>)\<rparr>;
                          s3 = setSqlPool config pool s2
                      in (Inr pool, s3)))"

text \<open>
  \<open>pool.request()\<close> and \<open>request.setTimeout(ms)\<close>: when the driver throws, nothing
  is created or set. \<open>request.cancel()\<close> marks the request.
\<close>

definition pool_request ::
  "'r env \<Rightarrow> nat \<Rightarrow> broker_state \<Rightarrow> (js_error + nat) \<times> broker_state" where
  "pool_request env pool s =
     (case new_request env pool of
        Some err \<Rightarrow> (Inl err, s)
      | None \<Rightarrow>
          (Inr (next_ref s),
           s\<lparr>requests := (requests s)(next_ref s \<mapsto>
                 \<lparr>req_pool = pool, req_timeout = None, req_cancelled = False\<rparr>),
             next_ref := Suc (next_ref s)\<rparr>))"

definition request_setTimeout ::
  "'r env \<Rightarrow> nat \<Rightarrow> nat \<Rightarrow> broker_state \<Rightarrow> js_error + broker_state" where
  "request_setTimeout env ref ms s =
     (case setTimeout env ms of
        Some err \<Rightarrow> Inl err
      | None \<Rightarrow>
          (case requests s ref of
             None \<Rightarrow> Inr s
           | Some r \<Rightarrow> Inr (s\<lparr>requests := (requests s)(ref \<mapsto> r\<lparr>req_timeout := Some ms\<rparr>)\<rparr>)))"

definition request_cancel :: "nat \<Rightarrow> broker_state \<Rightarrow> broker_state" where
  "request_cancel ref s =
     (case requests s ref of
        None \<Rightarrow> s
      | Some r \<Rightarrow> s\<lparr>requests := (requests s)(ref \<mapsto> r\<lparr>req_cancelled := True\<rparr>)\<rparr>)"

text \<open>\<open>await QueryHistoryModel.update(id, updates)\<close> on the table of the state.\<close>

definition history_update :: "string \<Rightarrow> (string \<times> sql_value) list \<Rightarrow> broker_state \<Rightarrow> broker_state" where
  "history_update i updates s =
     s\<lparr>query_history := snd (QueryHistoryModel_update i updates (query_history s))\<rparr>"

text \<open>\<open>runningQueries.delete(queryHistoryId)\<close>; the identifier is \<open>null\<close> before the record exists.\<close>

definition deregister :: "string option \<Rightarrow> broker_state \<Rightarrow> broker_state" where
  "deregister queryHistoryId s =
     (case queryHistoryId of
        None \<Rightarrow> s
      | Some qid \<Rightarrow> s\<lparr>runningQueries := (runningQueries s)(qid := None)\<rparr>)"


text \<open>
  \<open>executeQuery\<close> suspends at each \<open>await\<close>. Its parts between two suspensions are
  defined on their own, so that they can also be interleaved with \<open>cancelQuery\<close>:
  \<open>finalize_success\<close> is the history update of the \<open>try\<close> block, \<open>finalize_failure\<close>
  the history update of the \<open>catch\<close> block, and \<open>deregister\<close> what follows either.
\<close>

definition finalize_success :: "string \<Rightarrow> nat \<Rightarrow> int \<Rightarrow> broker_state \<Rightarrow> broker_state" where
  "finalize_success queryHistoryId totalRows' executionTime s =
     history_update queryHistoryId
       [(''status'', Text ''success''),
        (''rowCount'', Integer (int totalRows')),
        (''executionTimeMs'', Integer executionTime)] s"

text \<open>\<open>error.message && error.message.includes('cancel')\<close>\<close>

definition is_cancel_error :: "js_error \<Rightarrow> bool" where
  "is_cancel_error err = (message err \<noteq> [] \<and> includes_str (message err) ''cancel'')"

text \<open>\<open>if (queryHistoryId)\<close>: neither \<open>null\<close> nor the empty string.\<close>

definition truthy_id :: "string option \<Rightarrow> bool" where
  "truthy_id queryHistoryId = (case queryHistoryId of None \<Rightarrow> False | Some qid \<Rightarrow> qid \<noteq> [])"

definition finalize_failure ::
  "string option \<Rightarrow> js_error \<Rightarrow> int \<Rightarrow> broker_state \<Rightarrow> broker_state" where
  "finalize_failure queryHistoryId err executionTime s =
     (if is_cancel_error err then
        (case queryHistoryId of
           Some qid \<Rightarrow>
             if truthy_id queryHistoryId then
               history_update qid
                 [(''status'', Text ''cancelled''),
                  (''executionTimeMs'', Integer executionTime),
                  (''errorMessage'', Text ''Query cancelled by user'')] s
             else s
         | None \<Rightarrow> s)
      else
        (case queryHistoryId of
           Some qid \<Rightarrow>
             if truthy_id queryHistoryId then
               history_update qid
                 [(''status'', Text ''error''),
                  (''executionTimeMs'', Integer executionTime),
                  (''errorMessage'', Text (message err))] s
             else s
         | None \<Rightarrow> s))"

text \<open>The \<open>catch\<close> block: what is thrown to the caller, and the state left behind.\<close>

definition executeQuery_catch ::
  "string option \<Rightarrow> js_error \<Rightarrow> int \<Rightarrow> broker_state \<Rightarrow> js_error \<times> broker_state" where
  "executeQuery_catch queryHistoryId err executionTime s =
     (let s1 = finalize_failure queryHistoryId err executionTime s;
          s2 = deregister queryHistoryId s1
      in (if is_cancel_error err then new_Error ''Query cancelled by user'' else err, s2))"

record 'r query_response =
  queryId :: string
  data :: "'r list"
  totalRows :: nat
  returnedRows :: nat
  truncated :: bool
  maxRows_out :: nat
  executionTimeMs :: int
  columns_out :: "string list"

text \<open>
  Lines 52 to 80: the result is shaped, the history record updated, the query
  deregistered, and the response returned. \<open>slice(0, n)\<close> with \<open>n\<close> a natural number
  is \<^const>\<open>take\<close>.
\<close>

definition executeQuery_success ::
  "string \<Rightarrow> role_permissions \<Rightarrow> 'r driver_result \<Rightarrow> int \<Rightarrow> broker_state \<Rightarrow>
   'r query_response \<times> broker_state" where
  "executeQuery_success queryHistoryId permissions result executionTime s =
     (let rs = (case recordset result of Some r \<Rightarrow> rows r | None \<Rightarrow> []);
          total = length rs;
          limitedRows = take (maxRows permissions) rs;
          s1 = finalize_success queryHistoryId total executionTime s;
          s2 = deregister (Some queryHistoryId) s1
      in (\<lparr> queryId = queryHistoryId,
            data = limitedRows,
            totalRows = total,
            returnedRows = length limitedRows,
            truncated = (total > maxRows permissions),
            maxRows_out = maxRows permissions,
            executionTimeMs = executionTime,
            columns_out = (case recordset result of Some r \<Rightarrow> columns r | None \<Rightarrow> []) \<rparr>,
          s2))"

text \<open>
  \<open>executeQuery\<close> up to \<open>await request.query(sqlQuery)\<close>: either an error was thrown
  and the \<open>catch\<close> block has run, or the call is suspended with its identifier, its
  permissions and the state it has built. Every \<open>throw\<close> inside the \<open>try\<close> block is a
  branch into \<open>executeQuery_catch\<close>.
\<close>

definition executeQuery_begin ::
  "'r env \<Rightarrow> string \<Rightarrow> string \<Rightarrow> string \<Rightarrow> string \<Rightarrow> broker_state \<Rightarrow>
   (js_error \<times> broker_state) + (string \<times> role_permissions \<times> broker_state)" where
  "executeQuery_begin env cid sqlQuery uid userRole s =
     (let executionTime = endTime env - startTime env in
      case canExecuteStatement userRole sqlQuery of
        Denied reason \<Rightarrow> Inl (executeQuery_catch None (new_Error reason) executionTime s)
      | Allowed _ \<Rightarrow>
          let permissions = getRolePermissions userRole in
          case QueryHistoryModel_create (insert_history env) (uuidv4 env) (nowISO env)
                 uid cid sqlQuery ''running'' (query_history s) of
            Inl err \<Rightarrow> Inl (executeQuery_catch None err executionTime s)
          | Inr (queryHistoryId, tbl) \<Rightarrow>
              let s1 = s\<lparr>query_history := tbl\<rparr>
              in case getOrCreatePool env cid s1 of
                   (Inl err, s2) \<Rightarrow>
                     Inl (executeQuery_catch (Some queryHistoryId) err executionTime s2)
                 | (Inr pool, s2) \<Rightarrow>
                     (case pool_request env pool s2 of
                        (Inl err, s3) \<Rightarrow>
                          Inl (executeQuery_catch (Some queryHistoryId) err executionTime s3)
                      | (Inr req, s3) \<Rightarrow>
                          (case request_setTimeout env req (queryTimeoutMs permissions) s3 of
                             Inl err \<Rightarrow>
                               Inl (executeQuery_catch (Some queryHistoryId) err
                                      executionTime s3)
                           | Inr s4 \<Rightarrow>
                               let s5 = s4\<lparr>runningQueries :=
                                          (runningQueries s4)(queryHistoryId \<mapsto>
                                             \<lparr>request = req, userId = uid,
                                               connectionId = cid\<rparr>)\<rparr>
                               in Inr (queryHistoryId, permissions, s5))))"

text \<open>\<open>executeQuery\<close>, run without another call in between.\<close>

definition executeQuery ::
  "'r env \<Rightarrow> string \<Rightarrow> string \<Rightarrow> string \<Rightarrow> string \<Rightarrow> broker_state \<Rightarrow>
   (js_error + 'r query_response) \<times> broker_state" where
  "executeQuery env cid sqlQuery uid userRole s =
     (let executionTime = endTime env - startTime env in
      case executeQuery_begin env cid sqlQuery uid userRole s of
        Inl (thrown, s') \<Rightarrow> (Inl thrown, s')
      | Inr (queryHistoryId, permissions, s5) \<Rightarrow>
          (case query env sqlQuery of
             Inl err \<Rightarrow>
               (let (thrown, s') = executeQuery_catch (Some queryHistoryId) err executionTime s5
                in (Inl thrown, s'))
           | Inr result \<Rightarrow>
               (let (response, s') =
                      executeQuery_success queryHistoryId permissions result executionTime s5
                in (Inr response, s'))))"

text \<open>
  \<open>cancelQuery\<close>. \<open>cancelQuery_begin\<close> runs to the awaited history update: the lookup,
  the ownership check, \<open>request.cancel()\<close> and the update. \<open>cancelQuery\<close> is the whole
  call, run without another call in between.
\<close>

record cancel_result =
  success :: bool
  result_message :: string

definition cancelQuery_begin ::
  "string \<Rightarrow> string \<Rightarrow> string \<Rightarrow> broker_state \<Rightarrow> js_error + broker_state" where
  "cancelQuery_begin qid uid cancelledAt s =
     (case runningQueries s qid of
        None \<Rightarrow> Inl (new_Error ''Query not found or already completed'')
      | Some runningQuery \<Rightarrow>
          if userId runningQuery \<noteq> uid
          then Inl (new_Error ''Unauthorized to cancel this query'')
          else
            let s1 = request_cancel (request runningQuery) s;
                s2 = history_update qid
                       [(''status'', Text ''cancelled''), (''cancelledAt'', Text cancelledAt)] s1
            in Inr s2)"

definition cancelQuery ::
  "string \<Rightarrow> string \<Rightarrow> string \<Rightarrow> broker_state \<Rightarrow> (js_error + cancel_result) \<times> broker_state" where
  "cancelQuery qid uid cancelledAt s =
     (case cancelQuery_begin qid uid cancelledAt s of
        Inl err \<Rightarrow> (Inl err, s)
      | Inr s2 \<Rightarrow>
          (Inr \<lparr>success = True, result_message = ''Query cancelled''\<rparr>,
           deregister (Some qid) s2))"

text \<open>
  The error handler of the HTTP layer (middleware/errorHandler.js) and the route
  \<open>POST /api/query/cancel/:queryId\<close>, which passes every error thrown by
  \<open>cancelQuery\<close> to it. A response is the JSON result with status 200, or an error
  with its status, title and message.
\<close>

datatype 'a http_response = Json 'a | ErrorJson nat string string

definition errorHandler :: "bool \<Rightarrow> js_error \<Rightarrow> 'a http_response" where
  "errorHandler isDevelopment err =
     (if error_name err = ''UnauthorizedError''
      then ErrorJson 401 ''Unauthorized'' ''Invalid or expired token''
      else if error_name err = ''ValidationError''
      then ErrorJson 400 ''Validation Error'' (message err)
      else if error_name err = ''ConnectionError''
      then ErrorJson 503 ''Database Connection Error'' ''Unable to connect to the database''
      else if error_name err = ''QueryError''
      then ErrorJson 400 ''Query Error''
             (if isDevelopment then message err else ''Failed to execute query'')
      else ErrorJson
             (case error_status err of
                None \<Rightarrow> 500
              | Some c \<Rightarrow> if c = 0 then 500 else c)
             ''Internal Server Error''
             (if isDevelopment then message err else ''An unexpected error occurred''))"

definition cancel_route ::
  "bool \<Rightarrow> string \<Rightarrow> string \<Rightarrow> string \<Rightarrow> broker_state \<Rightarrow>
   cancel_result http_response \<times> broker_state" where
  "cancel_route isDevelopment qid reqUserId cancelledAt s =
     (case cancelQuery qid reqUserId cancelledAt s of
        (Inr result, s') \<Rightarrow> (Json result, s')
      | (Inl err, s') \<Rightarrow> (errorHandler isDevelopment err, s'))"

text \<open>
  The finishing steps of all executions and cancellations, interleaved: each event is
  the part of one call that runs between two suspensions.
\<close>

datatype event =
    Query_resolved string nat int
  | Query_rejected string js_error int
  | Execute_resumed string
  | Cancel_requested string string string
  | Cancel_resumed string

fun step :: "event \<Rightarrow> broker_state \<Rightarrow> broker_state" where
  "step (Query_resolved qid n executionTime) s = finalize_success qid n executionTime s"
| "step (Query_rejected qid err executionTime) s = finalize_failure (Some qid) err executionTime s"
| "step (Execute_resumed qid) s = deregister (Some qid) s"
| "step (Cancel_requested qid uid cancelledAt) s =
     (case cancelQuery_begin qid uid cancelledAt s of Inl err \<Rightarrow> s | Inr s' \<Rightarrow> s')"
| "step (Cancel_resumed qid) s = deregister (Some qid) s"

fun run :: "event list \<Rightarrow> broker_state \<Rightarrow> broker_state" where
  "run [] s = s"
| "run (e # es) s = run es (step e s)"

text \<open>The status column of the record with a given identifier.\<close>

definition status_of :: "string \<Rightarrow> broker_state \<Rightarrow> sql_value option" where
  "status_of qid s = map_option status (findById qid (query_history s))"

definition empty_state :: broker_state where
  "empty_state =
     \<lparr> query_history = [], runningQueries = Map.empty, sqlPools = Map.empty,
       pools = Map.empty, requests = Map.empty, next_ref = 0 \<rparr>"


text \<open>
  A concrete setting for the examples: the connection \<open>c1\<close> decrypts to the server
  \<open>db.example.com\<close> and the database \<open>sales\<close>; the store accepts the insert,
  connecting, \<open>pool.request()\<close> and \<open>request.setTimeout\<close> return, and the clock reads
  1000 at the start and 1120 at the end of a call. \<open>returns_normally\<close> is a call that
  returns whatever it is given, \<open>throws err\<close> one that always throws \<open>err\<close>.
\<close>

definition returns_normally :: "'a \<Rightarrow> js_error option" where
  "returns_normally x = None"

definition throws :: "js_error \<Rightarrow> 'a \<Rightarrow> js_error option" where
  "throws err x = Some err"

definition example_config :: connection_config where
  "example_config = \<lparr>server = Some ''db.example.com'', database = Some ''sales''\<rparr>"

definition example_getDecryptedConfig :: "string \<Rightarrow> js_error + connection_config" where
  "example_getDecryptedConfig cid =
     (if cid = ''c1'' then Inr example_config
      else Inl (new_Error ''Connection not found or inactive''))"

definition example_connect :: "connection_config \<Rightarrow> js_error option" where
  "example_connect config = None"

definition example_env :: "string \<Rightarrow> (string \<Rightarrow> js_error + 'r driver_result) \<Rightarrow> 'r env" where
  "example_env uuid q =
     \<lparr> uuidv4 = uuid, nowISO = ''2024-05-01T10:00:00.000Z'', startTime = 1000, endTime = 1120,
       insert_history = returns_normally,
       getDecryptedConfig = example_getDecryptedConfig, connect = example_connect,
       new_request = returns_normally, setTimeout = returns_normally,
       query = q \<rparr>"

text \<open>A driver that returns the given rows, one that returns no record set, and one that throws.\<close>

definition query_returns :: "'r list \<Rightarrow> string \<Rightarrow> js_error + 'r driver_result" where
  "query_returns rs sqlQuery = Inr \<lparr>recordset = Some \<lparr>rows = rs, columns = [''n'']\<rparr>\<rparr>"

definition query_no_recordset :: "string \<Rightarrow> js_error + 'r driver_result" where
  "query_no_recordset sqlQuery = Inr \<lparr>recordset = None\<rparr>"

definition query_throws :: "js_error \<Rightarrow> string \<Rightarrow> js_error + 'r driver_result" where
  "query_throws err sqlQuery = Inl err"

text \<open>
  The state in which the query \<open>q1\<close> of the user \<open>u1\<close>, a \<open>VIEWER\<close>, is suspended at
  \<open>await request.query\<close>.
\<close>

definition running_state :: broker_state where
  "running_state =
     (case executeQuery_begin (example_env ''q1'' (query_returns [0::nat]))
             ''c1'' ''SELECT 1'' ''u1'' ''VIEWER'' empty_state of
        Inr (queryHistoryId, permissions, s) \<Rightarrow> s
      | Inl (thrown, s) \<Rightarrow> s)"

text \<open>A clock for which the cutoff of \<open>deleteOlderThan\<close> is the given time.\<close>

definition cutoff_at :: "string \<Rightarrow> nat \<Rightarrow> string" where
  "cutoff_at t days = t"

text \<open>
  Two records for the examples of the retention job: one still \<open>running\<close> and created
  on the first of January, one finished and created on the twentieth of May.
\<close>

definition old_running_row :: query_history_row where
  "old_running_row =
     inserted_row ''q0'' ''2024-01-01T00:00:00.000Z'' ''u1'' ''c1'' ''SELECT 1'' ''running''"

definition recent_success_row :: query_history_row where
  "recent_success_row =
     (inserted_row ''q9'' ''2024-05-20T00:00:00.000Z'' ''u1'' ''c1'' ''SELECT 2'' ''running'')
       \<lparr>status := Text ''success'', row_count := Integer 8, execution_time_ms := Integer 120\<rparr>"


section \<open>Properties\<close>

subsection \<open>Auxiliary facts\<close>

lemmas role_defs = VIEWER_def ANALYST_def DEVELOPER_def ADMIN_def ROLE_PERMISSIONS_def getRolePermissions_def
  VIEWER_PERMISSIONS_def ANALYST_PERMISSIONS_def DEVELOPER_PERMISSIONS_def ADMIN_PERMISSIONS_def

lemmas string_defs = toUpperCase_def trim_def isWhiteSpace_def toUpperChar_def

lemma startsWith_iff: "startsWith s p \<longleftrightarrow> (\<exists>r. s = p @ r)"
  by (induction s p rule: startsWith.induct) auto

lemma startsWith_past: "c \<notin> set sub \<Longrightarrow> startsWith (x @ c # y) sub = startsWith x sub"
  by (induction x sub rule: startsWith.induct) auto

lemma includes_str_Nil: "includes_str s [] = True"
  by (induction s) auto

lemma includes_str_split:
  "sub \<noteq> [] \<Longrightarrow> c \<notin> set sub \<Longrightarrow>
   includes_str (x @ c # y) sub = (includes_str x sub \<or> includes_str y sub)"
proof (induction x)
  case Nil
  then show ?case by (cases sub) auto
next
  case (Cons a x)
  have "startsWith (a # x @ c # y) sub = startsWith (a # x) sub"
    using startsWith_past [of c sub "a # x" y] Cons.prems by simp
  with Cons show ?case by auto
qed

lemma keyword_reason_cancel:
  assumes "k \<in> set ddlKeywords"
  shows "includes_str (keyword_reason role k) ''cancel'' = includes_str role ''cancel''"
proof -
  have "keyword_reason role k = ''Role'' @ CHR '' '' # (role @ CHR '' '' # (''is not permitted to execute '' @ k @ '' statements''))"
    by (simp add: keyword_reason_def)
  moreover have "\<not> includes_str (''is not permitted to execute '' @ k @ '' statements'') ''cancel''"
    using assms by (auto simp: ddlKeywords_def)
  moreover have "\<not> includes_str ''Role'' ''cancel''" by simp
  ultimately show ?thesis
    by (simp add: includes_str_split del: append.simps includes_str.simps)
qed

lemma generic_reason_cancel:
  "includes_str (generic_reason role) ''cancel'' = includes_str role ''cancel''"
proof -
  have "generic_reason role = ''Role'' @ CHR '' '' # (role @ CHR '' '' # ''is not permitted to execute this type of query'')"
    by (simp add: generic_reason_def)
  moreover have "\<not> includes_str ''is not permitted to execute this type of query'' ''cancel''"
    by simp
  moreover have "\<not> includes_str ''Role'' ''cancel''" by simp
  ultimately show ?thesis
    by (simp add: includes_str_split del: append.simps includes_str.simps)
qed

lemma find_in_set: "find P xs = Some x \<Longrightarrow> x \<in> set xs \<and> P x"
  by (induction xs) (auto split: if_splits)

lemma denied_reason_cases:
  assumes "canExecuteStatement role sqlQuery = Denied reason"
  shows "(\<exists>k\<in>set ddlKeywords. reason = keyword_reason role k) \<or> reason = generic_reason role"
  using assms
  by (auto simp: canExecuteStatement_def Let_def split: if_splits option.splits dest: find_in_set)

lemma denied_reason_cancel:
  assumes "canExecuteStatement role sqlQuery = Denied reason"
  shows "includes_str reason ''cancel'' = includes_str role ''cancel''"
  using denied_reason_cases [OF assms]
  by (auto simp: keyword_reason_cancel generic_reason_cancel)

lemma denied_reason_nonempty:
  assumes "canExecuteStatement role sqlQuery = Denied reason"
  shows "reason \<noteq> []"
  using denied_reason_cases [OF assms]
  by (auto simp: keyword_reason_def generic_reason_def)

lemma valid_role_no_cancel: "isValidRole role \<Longrightarrow> \<not> includes_str role ''cancel''"
  by (auto simp: isValidRole_def ROLES_def role_defs)

lemma token_split: "\<exists>r. n = leading_token n @ r \<and> (r = [] \<or> isWhiteSpace (hd r))"
proof -
  let ?r = "dropWhile (\<lambda>c. \<not> isWhiteSpace c) n"
  have "n = leading_token n @ ?r"
    by (simp add: leading_token_def)
  moreover have "?r = [] \<or> isWhiteSpace (hd ?r)"
    using hd_dropWhile [of "\<lambda>c. \<not> isWhiteSpace c" n] by auto
  ultimately show ?thesis by blast
qed

lemma find_ddl_append:
  assumes "k \<in> set ddlKeywords" and "\<not> startsWith r ''UTE''"
  shows "find (startsWith (k @ r)) ddlKeywords = Some k"
proof -
  from assms(1) have "k = ''CREATE'' \<or> k = ''ALTER'' \<or> k = ''DROP'' \<or> k = ''TRUNCATE''
      \<or> k = ''GRANT'' \<or> k = ''REVOKE'' \<or> k = ''EXECUTE'' \<or> k = ''EXEC''"
    by (simp add: ddlKeywords_def)
  then show ?thesis using assms(2)
    by (elim disjE) (simp_all add: ddlKeywords_def)
qed

lemma find_ddl_token:
  assumes "leading_token n \<in> set ddlKeywords"
  shows "find (startsWith n) ddlKeywords = Some (leading_token n)"
proof -
  obtain r where n: "n = leading_token n @ r" and r: "r = [] \<or> isWhiteSpace (hd r)"
    using token_split by blast
  have "\<not> startsWith r ''UTE''" using r by (cases r) (auto simp: isWhiteSpace_def)
  with assms have "find (startsWith (leading_token n @ r)) ddlKeywords = Some (leading_token n)"
    by (rule find_ddl_append)
  moreover from n have "startsWith n = startsWith (leading_token n @ r)"
    by (rule arg_cong)
  ultimately show ?thesis by (simp only:)
qed


lemma snake_allowed:
  "map toSnakeCase allowedFields =
     [''status'', ''row_count'', ''execution_time_ms'', ''error_message'', ''cancelled_at'']"
  by (simp add: allowedFields_def toSnakeCase_def toLowerChar_def)

lemma collect_setClauses_columns:
  "(col, v) \<in> set (collect_setClauses updates) \<Longrightarrow> col \<in> set (map toSnakeCase allowedFields)"
  by (induction updates rule: collect_setClauses.induct) (auto split: if_splits)

lemma set_column_identity:
  "col \<in> set (map toSnakeCase allowedFields) \<Longrightarrow> same_identity r (set_column col v r)"
  unfolding snake_allowed by (auto simp: set_column_def same_identity_def)

lemma same_identity_refl: "same_identity r r"
  by (simp add: same_identity_def)

lemma same_identity_trans: "same_identity a b \<Longrightarrow> same_identity b c \<Longrightarrow> same_identity a c"
  by (simp add: same_identity_def)

lemma set_columns_identity:
  "\<forall>(col, v)\<in>set cs. col \<in> set (map toSnakeCase allowedFields) \<Longrightarrow>
   same_identity r (set_columns cs r)"
proof (induction cs arbitrary: r)
  case Nil
  then show ?case by (simp add: same_identity_refl)
next
  case (Cons c cs)
  obtain col v where c: "c = (col, v)" by (cases c)
  from Cons.prems c have "same_identity r (set_column col v r)"
    by (simp add: set_column_identity)
  moreover from Cons have "same_identity (set_column col v r) (set_columns cs (set_column col v r))"
    by simp
  ultimately show ?case using c by (auto intro: same_identity_trans)
qed

lemma collected_identity: "same_identity r (set_columns (collect_setClauses updates) r)"
  by (rule set_columns_identity) (auto dest: collect_setClauses_columns)

lemma collect_setClauses_filter:
  "collect_setClauses (filter (\<lambda>(key, v). key \<in> set allowedFields) updates)
   = collect_setClauses updates"
  by (induction updates rule: collect_setClauses.induct) auto

lemma collect_setClauses_none:
  "\<forall>(key, v)\<in>set updates. key \<notin> set allowedFields \<Longrightarrow> collect_setClauses updates = []"
  by (induction updates rule: collect_setClauses.induct) auto

lemma update_table:
  "snd (QueryHistoryModel_update i updates tbl) =
     map (\<lambda>r. if id_col r = Text i then set_columns (collect_setClauses updates) r else r) tbl"
proof (cases "collect_setClauses updates = []")
  case True
  have "map (\<lambda>r. if id_col r = Text i then set_columns [] r else r) tbl = tbl"
    by (induction tbl) auto
  then show ?thesis
    unfolding True by (simp add: QueryHistoryModel_update_def Let_def True)
next
  case False
  then show ?thesis
    by (simp add: QueryHistoryModel_update_def Let_def sql_update_where_id_def)
qed

lemma update_result:
  "fst (QueryHistoryModel_update i updates tbl) =
     findById i (snd (QueryHistoryModel_update i updates tbl))"
  by (simp add: QueryHistoryModel_update_def Let_def)

lemma findById_map:
  assumes "\<And>r. id_col (f r) = id_col r"
  shows "findById i (map (\<lambda>r. if id_col r = Text i then f r else r) tbl)
         = map_option f (findById i tbl)"
proof (induction tbl)
  case Nil
  then show ?case by (simp add: findById_def sql_select_where_id_def)
next
  case (Cons a tbl)
  then show ?case
    using assms by (auto simp: findById_def sql_select_where_id_def split: list.splits)
qed


lemma history_update_table:
  "query_history (history_update i ups s) =
     map (\<lambda>r. if id_col r = Text i then set_columns (collect_setClauses ups) r else r)
       (query_history s)"
  by (simp add: history_update_def update_table)

lemma history_update_frame:
  "runningQueries (history_update i ups s) = runningQueries s"
  "sqlPools (history_update i ups s) = sqlPools s"
  "pools (history_update i ups s) = pools s"
  "requests (history_update i ups s) = requests s"
  "next_ref (history_update i ups s) = next_ref s"
  by (simp_all add: history_update_def)

lemma findById_history_update:
  "findById i (query_history (history_update i ups s))
   = map_option (set_columns (collect_setClauses ups)) (findById i (query_history s))"
proof -
  have "\<And>r. id_col (set_columns (collect_setClauses ups) r) = id_col r"
    using collected_identity by (simp add: same_identity_def)
  then show ?thesis
    unfolding history_update_table by (rule findById_map)
qed

lemma findById_append_new:
  "\<exists>r0. findById i (tbl @ [inserted_row i createdAt uid cid sqlText st]) = Some r0"
  by (simp add: findById_def sql_select_where_id_def inserted_row_def split: list.splits)

lemma success_clauses:
  "set_columns (collect_setClauses
      [(''status'', a), (''rowCount'', b), (''executionTimeMs'', c)]) r
   = r\<lparr>status := a, row_count := b, execution_time_ms := c\<rparr>"
  by (simp add: allowedFields_def toSnakeCase_def toLowerChar_def set_column_def)

lemma failure_clauses:
  "set_columns (collect_setClauses
      [(''status'', a), (''executionTimeMs'', b), (''errorMessage'', c)]) r
   = r\<lparr>status := a, execution_time_ms := b, error_message := c\<rparr>"
  by (simp add: allowedFields_def toSnakeCase_def toLowerChar_def set_column_def)

lemma cancel_clauses:
  "set_columns (collect_setClauses [(''status'', a), (''cancelledAt'', b)]) r
   = r\<lparr>status := a, cancelled_at := b\<rparr>"
  by (simp add: allowedFields_def toSnakeCase_def toLowerChar_def set_column_def)

lemma getOrCreatePool_history_indep:
  "getOrCreatePool env cid (s\<lparr>query_history := t\<rparr>)
   = (fst (getOrCreatePool env cid s), (snd (getOrCreatePool env cid s))\<lparr>query_history := t\<rparr>)"
  by (simp add: getOrCreatePool_def getSqlPool_def connected_pool_def setSqlPool_def Let_def
      split: option.splits sum.splits)

lemma getOrCreatePool_frame:
  "query_history (snd (getOrCreatePool env cid s)) = query_history s"
  "runningQueries (snd (getOrCreatePool env cid s)) = runningQueries s"
  by (simp_all add: getOrCreatePool_def setSqlPool_def Let_def split: option.splits sum.splits)

lemma is_cancel_error_iff: "is_cancel_error err = includes_str (message err) ''cancel''"
  by (cases "message err") (auto simp: is_cancel_error_def)

lemma pool_request_history:
  "query_history (snd (pool_request env pool s)) = query_history s"
  by (simp add: pool_request_def split: option.splits)

lemma executeQuery_begin_acquired:
  assumes "allowed (canExecuteStatement userRole sqlQuery)"
      and "insert_history env
             (inserted_row (uuidv4 env) (nowISO env) uid cid sqlQuery ''running'') = None"
      and "fst (getOrCreatePool env cid s) = Inr pool"
      and "new_request env pool = None"
      and "setTimeout env (queryTimeoutMs (getRolePermissions userRole)) = None"
  shows "\<exists>s5. executeQuery_begin env cid sqlQuery uid userRole s
                = Inr (uuidv4 env, getRolePermissions userRole, s5)
              \<and> query_history s5 = query_history s
                   @ [inserted_row (uuidv4 env) (nowISO env) uid cid sqlQuery ''running'']
              \<and> (\<exists>req. runningQueries s5 (uuidv4 env)
                    = Some \<lparr>request = req, userId = uid, connectionId = cid\<rparr>)"
proof -
  obtain x where x: "canExecuteStatement userRole sqlQuery = Allowed x"
    using assms(1) by (cases "canExecuteStatement userRole sqlQuery") auto
  let ?t = "query_history s @ [inserted_row (uuidv4 env) (nowISO env) uid cid sqlQuery ''running'']"
  let ?s2 = "(snd (getOrCreatePool env cid s))\<lparr>query_history := ?t\<rparr>"
  have g: "getOrCreatePool env cid (s\<lparr>query_history := ?t\<rparr>) = (Inr pool, ?s2)"
    using assms(3) by (simp add: getOrCreatePool_history_indep)
  show ?thesis
    using x g assms(2,4,5)
    by (simp add: executeQuery_begin_def QueryHistoryModel_create_def Let_def
        pool_request_def request_setTimeout_def)
qed

lemma executeQuery_begin_create_failed:
  assumes "allowed (canExecuteStatement userRole sqlQuery)"
      and "insert_history env
             (inserted_row (uuidv4 env) (nowISO env) uid cid sqlQuery ''running'') = Some err"
  shows "executeQuery_begin env cid sqlQuery uid userRole s
         = Inl (executeQuery_catch None err (endTime env - startTime env) s)"
proof -
  obtain x where x: "canExecuteStatement userRole sqlQuery = Allowed x"
    using assms(1) by (cases "canExecuteStatement userRole sqlQuery") auto
  show ?thesis
    using x assms(2)
    by (simp add: executeQuery_begin_def QueryHistoryModel_create_def Let_def)
qed

lemma executeQuery_begin_failed:
  assumes "allowed (canExecuteStatement userRole sqlQuery)"
      and "insert_history env
             (inserted_row (uuidv4 env) (nowISO env) uid cid sqlQuery ''running'') = None"
      and "fst (getOrCreatePool env cid s) = Inl err
           \<or> fst (getOrCreatePool env cid s) = Inr pool
             \<and> (new_request env pool = Some err
                \<or> new_request env pool = None
                  \<and> setTimeout env (queryTimeoutMs (getRolePermissions userRole)) = Some err)"
  shows "\<exists>s2. executeQuery_begin env cid sqlQuery uid userRole s
                = Inl (executeQuery_catch (Some (uuidv4 env)) err (endTime env - startTime env) s2)
              \<and> query_history s2 = query_history s
                   @ [inserted_row (uuidv4 env) (nowISO env) uid cid sqlQuery ''running'']"
proof -
  obtain x where x: "canExecuteStatement userRole sqlQuery = Allowed x"
    using assms(1) by (cases "canExecuteStatement userRole sqlQuery") auto
  let ?t = "query_history s @ [inserted_row (uuidv4 env) (nowISO env) uid cid sqlQuery ''running'']"
  let ?s2 = "(snd (getOrCreatePool env cid s))\<lparr>query_history := ?t\<rparr>"
  have h2: "query_history ?s2 = ?t" by simp
  from assms(3) consider
      (vault) "fst (getOrCreatePool env cid s) = Inl err"
    | (request) "fst (getOrCreatePool env cid s) = Inr pool" "new_request env pool = Some err"
    | (timeout) "fst (getOrCreatePool env cid s) = Inr pool" "new_request env pool = None"
        "setTimeout env (queryTimeoutMs (getRolePermissions userRole)) = Some err"
    by (elim disjE conjE) blast+
  then show ?thesis
  proof cases
    case vault
    then have g: "getOrCreatePool env cid (s\<lparr>query_history := ?t\<rparr>) = (Inl err, ?s2)"
      by (simp add: getOrCreatePool_history_indep)
    have "executeQuery_begin env cid sqlQuery uid userRole s
          = Inl (executeQuery_catch (Some (uuidv4 env)) err (endTime env - startTime env) ?s2)"
      using x g assms(2)
      by (simp add: executeQuery_begin_def QueryHistoryModel_create_def Let_def)
    with h2 show ?thesis by blast
  next
    case request
    then have g: "getOrCreatePool env cid (s\<lparr>query_history := ?t\<rparr>) = (Inr pool, ?s2)"
      by (simp add: getOrCreatePool_history_indep)
    have "executeQuery_begin env cid sqlQuery uid userRole s
          = Inl (executeQuery_catch (Some (uuidv4 env)) err (endTime env - startTime env) ?s2)"
      using x g assms(2) request(2)
      by (simp add: executeQuery_begin_def QueryHistoryModel_create_def Let_def pool_request_def)
    with h2 show ?thesis by blast
  next
    case timeout
    then have g: "getOrCreatePool env cid (s\<lparr>query_history := ?t\<rparr>) = (Inr pool, ?s2)"
      by (simp add: getOrCreatePool_history_indep)
    let ?s3 = "snd (pool_request env pool ?s2)"
    have h3: "query_history ?s3 = ?t"
      by (simp add: pool_request_history)
    have "executeQuery_begin env cid sqlQuery uid userRole s
          = Inl (executeQuery_catch (Some (uuidv4 env)) err (endTime env - startTime env) ?s3)"
      using x g assms(2) timeout(2,3)
      by (simp add: executeQuery_begin_def QueryHistoryModel_create_def Let_def pool_request_def
          request_setTimeout_def)
    with h3 show ?thesis by blast
  qed
qed


lemma deregister_frame:
  "query_history (deregister q s) = query_history s"
  by (simp add: deregister_def split: option.splits)

lemma deregister_removes: "runningQueries (deregister (Some qid) s) qid = None"
  by (simp add: deregister_def)

lemma executeQuery_resolved:
  assumes "allowed (canExecuteStatement userRole sqlQuery)"
      and "insert_history env
             (inserted_row (uuidv4 env) (nowISO env) uid cid sqlQuery ''running'') = None"
      and "fst (getOrCreatePool env cid s) = Inr pool"
      and "new_request env pool = None"
      and "setTimeout env (queryTimeoutMs (getRolePermissions userRole)) = None"
      and "query env sqlQuery = Inr result"
  shows "\<exists>s5 r0. executeQuery env cid sqlQuery uid userRole s
           = (Inr (fst (executeQuery_success (uuidv4 env) (getRolePermissions userRole) result
                     (endTime env - startTime env) s5)),
              snd (executeQuery_success (uuidv4 env) (getRolePermissions userRole) result
                     (endTime env - startTime env) s5))
         \<and> findById (uuidv4 env) (query_history s5) = Some r0"
proof -
  from executeQuery_begin_acquired [OF assms(1,2,3,4,5)]
  obtain s5 where b: "executeQuery_begin env cid sqlQuery uid userRole s
                = Inr (uuidv4 env, getRolePermissions userRole, s5)"
    and h: "query_history s5 = query_history s
                   @ [inserted_row (uuidv4 env) (nowISO env) uid cid sqlQuery ''running'']"
    by blast
  from h obtain r0 where "findById (uuidv4 env) (query_history s5) = Some r0"
    using findById_append_new by metis
  moreover have "executeQuery env cid sqlQuery uid userRole s
           = (Inr (fst (executeQuery_success (uuidv4 env) (getRolePermissions userRole) result
                     (endTime env - startTime env) s5)),
              snd (executeQuery_success (uuidv4 env) (getRolePermissions userRole) result
                     (endTime env - startTime env) s5))"
    using b assms(6) by (simp add: executeQuery_def Let_def split: prod.splits)
  ultimately show ?thesis by blast
qed

lemma executeQuery_success_history:
  assumes "findById qid (query_history s) = Some r0"
  shows "findById qid (query_history (snd (executeQuery_success qid permissions result t s)))
         = Some (r0\<lparr>status := Text ''success'',
                   row_count := Integer (int (length (case recordset result of
                                    Some r \<Rightarrow> rows r | None \<Rightarrow> []))),
                   execution_time_ms := Integer t\<rparr>)"
  using assms
  by (simp add: executeQuery_success_def Let_def deregister_frame finalize_success_def
      findById_history_update success_clauses
      del: collect_setClauses.simps set_columns.simps)

lemma take_min_length: "take (min (length xs) n) xs = take n xs"
  by (cases "n \<le> length xs") (simp_all add: min_def)

lemma executeQuery_catch_thrown:
  "fst (executeQuery_catch q err t s)
   = (if includes_str (message err) ''cancel'' then new_Error ''Query cancelled by user'' else err)"
  by (simp add: executeQuery_catch_def Let_def is_cancel_error_iff)

lemma executeQuery_catch_history:
  assumes "findById qid (query_history s) = Some r0" and "qid \<noteq> []"
  shows "findById qid (query_history (snd (executeQuery_catch (Some qid) err t s)))
         = Some (if includes_str (message err) ''cancel''
                 then r0\<lparr>status := Text ''cancelled'', execution_time_ms := Integer t,
                         error_message := Text ''Query cancelled by user''\<rparr>
                 else r0\<lparr>status := Text ''error'', execution_time_ms := Integer t,
                         error_message := Text (message err)\<rparr>)"
  using assms
  by (simp add: executeQuery_catch_def Let_def deregister_frame finalize_failure_def
      truthy_id_def is_cancel_error_iff findById_history_update failure_clauses
      del: collect_setClauses.simps set_columns.simps)

lemma executeQuery_catch_deregisters:
  "runningQueries (snd (executeQuery_catch (Some qid) err t s)) qid = None"
  by (simp add: executeQuery_catch_def Let_def deregister_removes)

lemma executeQuery_create_failed:
  assumes "allowed (canExecuteStatement userRole sqlQuery)"
      and "insert_history env
             (inserted_row (uuidv4 env) (nowISO env) uid cid sqlQuery ''running'') = Some err"
  shows "executeQuery env cid sqlQuery uid userRole s
         = (Inl (if includes_str (message err) ''cancel''
                 then new_Error ''Query cancelled by user'' else err), s)"
  using executeQuery_begin_create_failed [OF assms]
  by (simp add: executeQuery_def executeQuery_catch_def finalize_failure_def deregister_def
      is_cancel_error_iff Let_def)

lemma executeQuery_failed:
  assumes "allowed (canExecuteStatement userRole sqlQuery)"
      and "insert_history env
             (inserted_row (uuidv4 env) (nowISO env) uid cid sqlQuery ''running'') = None"
      and "fst (getOrCreatePool env cid s) = Inl err
           \<or> fst (getOrCreatePool env cid s) = Inr pool
             \<and> (new_request env pool = Some err
                \<or> new_request env pool = None
                  \<and> (setTimeout env (queryTimeoutMs (getRolePermissions userRole)) = Some err
                     \<or> setTimeout env (queryTimeoutMs (getRolePermissions userRole)) = None
                       \<and> query env sqlQuery = Inl err))"
  shows "\<exists>s2 r0. executeQuery env cid sqlQuery uid userRole s
           = (Inl (fst (executeQuery_catch (Some (uuidv4 env)) err
                          (endTime env - startTime env) s2)),
              snd (executeQuery_catch (Some (uuidv4 env)) err (endTime env - startTime env) s2))
         \<and> findById (uuidv4 env) (query_history s2) = Some r0"
proof -
  from assms(3) consider
      (before) "fst (getOrCreatePool env cid s) = Inl err
           \<or> fst (getOrCreatePool env cid s) = Inr pool
             \<and> (new_request env pool = Some err
                \<or> new_request env pool = None
                  \<and> setTimeout env (queryTimeoutMs (getRolePermissions userRole)) = Some err)"
    | (driver) "fst (getOrCreatePool env cid s) = Inr pool" "new_request env pool = None"
        "setTimeout env (queryTimeoutMs (getRolePermissions userRole)) = None"
        "query env sqlQuery = Inl err"
    by (elim disjE conjE) blast+
  then show ?thesis
  proof cases
    case before
    from executeQuery_begin_failed [OF assms(1,2) before]
    obtain s2 where b: "executeQuery_begin env cid sqlQuery uid userRole s
                = Inl (executeQuery_catch (Some (uuidv4 env)) err (endTime env - startTime env) s2)"
      and h: "query_history s2 = query_history s
                   @ [inserted_row (uuidv4 env) (nowISO env) uid cid sqlQuery ''running'']"
      by blast
    from h obtain r0 where "findById (uuidv4 env) (query_history s2) = Some r0"
      using findById_append_new by metis
    moreover have "executeQuery env cid sqlQuery uid userRole s
           = (Inl (fst (executeQuery_catch (Some (uuidv4 env)) err
                          (endTime env - startTime env) s2)),
              snd (executeQuery_catch (Some (uuidv4 env)) err (endTime env - startTime env) s2))"
      using b by (simp add: executeQuery_def Let_def split: prod.splits)
    ultimately show ?thesis by blast
  next
    case driver
    from executeQuery_begin_acquired [OF assms(1,2) driver(1,2,3)]
    obtain s5 where b: "executeQuery_begin env cid sqlQuery uid userRole s
                = Inr (uuidv4 env, getRolePermissions userRole, s5)"
      and h: "query_history s5 = query_history s
                   @ [inserted_row (uuidv4 env) (nowISO env) uid cid sqlQuery ''running'']"
      by blast
    from h obtain r0 where "findById (uuidv4 env) (query_history s5) = Some r0"
      using findById_append_new by metis
    moreover have "executeQuery env cid sqlQuery uid userRole s
           = (Inl (fst (executeQuery_catch (Some (uuidv4 env)) err
                          (endTime env - startTime env) s5)),
              snd (executeQuery_catch (Some (uuidv4 env)) err (endTime env - startTime env) s5))"
      using b driver(4) by (simp add: executeQuery_def Let_def split: prod.splits)
    ultimately show ?thesis by blast
  qed
qed

lemma executeQuery_success_response:
  "fst (executeQuery_success qid permissions result t s)
   = \<lparr> queryId = qid,
       data = take (maxRows permissions) (case recordset result of Some r \<Rightarrow> rows r | None \<Rightarrow> []),
       totalRows = length (case recordset result of Some r \<Rightarrow> rows r | None \<Rightarrow> []),
       returnedRows = min (length (case recordset result of Some r \<Rightarrow> rows r | None \<Rightarrow> []))
                          (maxRows permissions),
       truncated = (length (case recordset result of Some r \<Rightarrow> rows r | None \<Rightarrow> [])
                      > maxRows permissions),
       maxRows_out = maxRows permissions,
       executionTimeMs = t,
       columns_out = (case recordset result of Some r \<Rightarrow> columns r | None \<Rightarrow> []) \<rparr>"
  by (simp add: executeQuery_success_def Let_def)

lemma executeQuery_success_deregisters:
  "runningQueries (snd (executeQuery_success qid permissions result t s)) qid = None"
  by (simp add: executeQuery_success_def Let_def deregister_removes)

lemmas pool_defs = getOrCreatePool_def getSqlPool_def connected_pool_def setSqlPool_def
  poolKey_def template_str_def Let_def

lemmas example_defs = example_env_def example_getDecryptedConfig_def example_connect_def
  example_config_def empty_state_def

lemma viewer_select_allowed: "allowed (canExecuteStatement ''VIEWER'' ''SELECT 1'')"
  by (simp add: canExecuteStatement_def role_defs string_defs)

lemma example_pool_acquired:
  "fst (getOrCreatePool (example_env uuid q) ''c1'' empty_state) = Inr 0"
  by (simp add: pool_defs example_defs)

lemma example_calls_return:
  "insert_history (example_env uuid q) r = None"
  "new_request (example_env uuid q) pool = None"
  "setTimeout (example_env uuid q) ms = None"
  by (simp_all add: example_env_def returns_normally_def)


lemma running_state_eq:
  "running_state =
     \<lparr> query_history =
         [inserted_row ''q1'' ''2024-05-01T10:00:00.000Z'' ''u1'' ''c1'' ''SELECT 1'' ''running''],
       runningQueries = [''q1'' \<mapsto> \<lparr>request = 1, userId = ''u1'', connectionId = ''c1''\<rparr>],
       sqlPools = [''db.example.com_sales'' \<mapsto> 0],
       pools = [0 \<mapsto> \<lparr>pool_config = example_config, connected = True\<rparr>],
       requests = [1 \<mapsto> \<lparr>req_pool = 0, req_timeout = Some 30000, req_cancelled = False\<rparr>],
       next_ref = 2 \<rparr>"
proof -
  have a: "canExecuteStatement ''VIEWER'' ''SELECT 1'' = Allowed (Some ''SELECT'')"
    by (simp add: canExecuteStatement_def role_defs string_defs)
  have t: "queryTimeoutMs (getRolePermissions ''VIEWER'') = 30000"
    by (simp add: role_defs)
  have g: "getOrCreatePool (example_env ''q1'' (query_returns [0::nat])) ''c1''
             (empty_state\<lparr>query_history := h\<rparr>)
           = (Inr 0, \<lparr> query_history = h, runningQueries = Map.empty,
                       sqlPools = [''db.example.com_sales'' \<mapsto> 0],
                       pools = [0 \<mapsto> \<lparr>pool_config = example_config, connected = True\<rparr>],
                       requests = Map.empty, next_ref = 1 \<rparr>)" for h
    by (simp add: pool_defs example_defs)
  have e: "uuidv4 (example_env ''q1'' (query_returns [0::nat])) = ''q1''"
    "nowISO (example_env ''q1'' (query_returns [0::nat])) = ''2024-05-01T10:00:00.000Z''"
    by (simp_all add: example_env_def)
  have h0: "query_history empty_state = []"
    by (simp add: empty_state_def)
  show ?thesis
    unfolding running_state_def executeQuery_begin_def
    by (simp add: a t g e h0 example_calls_return QueryHistoryModel_create_def Let_def
        pool_request_def request_setTimeout_def)
qed

lemma running_state_found:
  "findById ''q1'' (query_history running_state)
   = Some (inserted_row ''q1'' ''2024-05-01T10:00:00.000Z'' ''u1'' ''c1'' ''SELECT 1'' ''running'')"
  by (simp add: running_state_eq findById_def sql_select_where_id_def inserted_row_def)

lemma request_cancel_frame:
  "query_history (request_cancel ref s) = query_history s"
  "runningQueries (request_cancel ref s) = runningQueries s"
  by (simp_all add: request_cancel_def split: option.splits)

lemma status_of_update:
  "status_of qid (history_update qid ups s)
   = map_option (\<lambda>r. status (set_columns (collect_setClauses ups) r))
       (findById qid (query_history s))"
  by (simp add: status_of_def findById_history_update option.map_comp comp_def)

lemma status_after_resolved:
  "findById qid (query_history s) \<noteq> None \<Longrightarrow>
   status_of qid (step (Query_resolved qid n t) s) = Some (Text ''success'')"
  by (auto simp: finalize_success_def status_of_update success_clauses
      simp del: collect_setClauses.simps set_columns.simps)

lemma status_after_rejected:
  "findById qid (query_history s) \<noteq> None \<Longrightarrow> qid \<noteq> [] \<Longrightarrow>
   status_of qid (step (Query_rejected qid err t) s)
   = Some (if includes_str (message err) ''cancel'' then Text ''cancelled'' else Text ''error'')"
  by (auto simp: finalize_failure_def truthy_id_def is_cancel_error_iff status_of_update
      failure_clauses simp del: collect_setClauses.simps set_columns.simps)

lemma cancelQuery_begin_owner:
  assumes "runningQueries s qid = Some e" and "userId e = uid"
  shows "cancelQuery_begin qid uid cancelledAt s
         = Inr (history_update qid
                  [(''status'', Text ''cancelled''), (''cancelledAt'', Text cancelledAt)]
                  (request_cancel (request e) s))"
  using assms by (simp add: cancelQuery_begin_def Let_def)

lemma status_after_cancel:
  assumes "findById qid (query_history s) \<noteq> None"
      and "runningQueries s qid = Some e" and "userId e = uid"
  shows "status_of qid (step (Cancel_requested qid uid cancelledAt) s) = Some (Text ''cancelled'')"
  using assms(1)
  by (auto simp: cancelQuery_begin_owner [OF assms(2,3)] status_of_update cancel_clauses
      request_cancel_frame simp del: collect_setClauses.simps set_columns.simps)

lemma keeps_terminal_refl: "keeps_terminal r r"
  by (simp add: keeps_terminal_def same_identity_refl)

lemma keeps_terminal_trans:
  "keeps_terminal a b \<Longrightarrow> keeps_terminal b c \<Longrightarrow> keeps_terminal a c"
  by (auto simp: keeps_terminal_def intro: same_identity_trans)

lemma history_update_keeps_terminal:
  assumes "\<And>r. is_terminal (status (set_columns (collect_setClauses ups) r))"
  shows "list_all2 keeps_terminal (query_history s) (query_history (history_update i ups s))"
  unfolding history_update_table
  by (simp add: list_all2_map2 list_all2_same keeps_terminal_def same_identity_refl
      collected_identity assms)

lemma step_keeps_terminal:
  "list_all2 keeps_terminal (query_history s) (query_history (step e s))"
proof (cases e)
  case (Query_resolved qid n t)
  then show ?thesis
    by (simp add: finalize_success_def history_update_keeps_terminal success_clauses
        is_terminal_def del: collect_setClauses.simps set_columns.simps)
next
  case (Query_rejected qid err t)
  then show ?thesis
    by (simp add: finalize_failure_def history_update_keeps_terminal failure_clauses
        is_terminal_def list_all2_same keeps_terminal_refl
        del: collect_setClauses.simps set_columns.simps)
next
  case (Execute_resumed qid)
  then show ?thesis
    by (simp add: deregister_frame list_all2_same keeps_terminal_refl)
next
  case (Cancel_requested qid uid cancelledAt)
  show ?thesis
  proof (cases "cancelQuery_begin qid uid cancelledAt s")
    case (Inl err)
    with Cancel_requested show ?thesis
      by (simp add: list_all2_same keeps_terminal_refl)
  next
    case (Inr s')
    then have "\<exists>e. runningQueries s qid = Some e \<and> userId e = uid"
      by (cases "runningQueries s qid") (auto simp: cancelQuery_begin_def split: if_splits)
    then obtain e where r: "runningQueries s qid = Some e" and u: "userId e = uid"
      by blast
    from Inr have "s' = history_update qid
                  [(''status'', Text ''cancelled''), (''cancelledAt'', Text cancelledAt)]
                  (request_cancel (request e) s)"
      by (simp add: cancelQuery_begin_owner [OF r u])
    moreover have "list_all2 keeps_terminal (query_history (request_cancel (request e) s))
       (query_history (history_update qid
                  [(''status'', Text ''cancelled''), (''cancelledAt'', Text cancelledAt)]
                  (request_cancel (request e) s)))"
      by (rule history_update_keeps_terminal)
         (simp add: cancel_clauses is_terminal_def del: collect_setClauses.simps set_columns.simps)
    ultimately show ?thesis
      using Cancel_requested Inr by (simp add: request_cancel_frame)
  qed
next
  case (Cancel_resumed qid)
  then show ?thesis
    by (simp add: deregister_frame list_all2_same keeps_terminal_refl)
qed

lemma run_keeps_terminal:
  "list_all2 keeps_terminal (query_history s) (query_history (run es s))"
proof (induction es arbitrary: s)
  case Nil
  then show ?case by (simp add: list_all2_same keeps_terminal_refl)
next
  case (Cons e es)
  have "list_all2 keeps_terminal (query_history s) (query_history (step e s))"
    by (rule step_keeps_terminal)
  moreover have "list_all2 keeps_terminal (query_history (step e s))
                   (query_history (run es (step e s)))"
    by (rule Cons.IH)
  ultimately show ?case
    using list_all2_trans [of keeps_terminal keeps_terminal keeps_terminal]
          keeps_terminal_trans
    by (metis run.simps(2))
qed

lemmas history_eval = status_of_def findById_def sql_select_where_id_def inserted_row_def
  history_update_def QueryHistoryModel_update_def allowedFields_def toSnakeCase_def
  toLowerChar_def sql_update_where_id_def set_column_def Let_def

lemma cancelQuery_notFound:
  "runningQueries s qid = None \<Longrightarrow>
   cancelQuery qid uid cancelledAt s
   = (Inl (new_Error ''Query not found or already completed''), s)"
  by (simp add: cancelQuery_def cancelQuery_begin_def)

lemma cancelQuery_deny:
  "runningQueries s qid = Some e \<Longrightarrow> userId e \<noteq> uid \<Longrightarrow>
   cancelQuery qid uid cancelledAt s = (Inl (new_Error ''Unauthorized to cancel this query''), s)"
  by (simp add: cancelQuery_def cancelQuery_begin_def)

lemma cancelQuery_ok:
  assumes "runningQueries s qid = Some e" and "userId e = uid"
  shows "cancelQuery qid uid cancelledAt s
         = (Inr \<lparr>success = True, result_message = ''Query cancelled''\<rparr>,
            deregister (Some qid)
              (history_update qid
                 [(''status'', Text ''cancelled''), (''cancelledAt'', Text cancelledAt)]
                 (request_cancel (request e) s)))"
  by (simp add: cancelQuery_def cancelQuery_begin_owner [OF assms])

lemma request_cancel_marks:
  "requests (request_cancel ref s) ref
   = map_option (\<lambda>r. r\<lparr>req_cancelled := True\<rparr>) (requests s ref)"
  by (simp add: request_cancel_def split: option.splits)

lemma deregister_requests: "requests (deregister q s) = requests s"
  by (simp add: deregister_def split: option.splits)

lemma errorHandler_plain:
  "errorHandler isDevelopment (new_Error m)
   = ErrorJson 500 ''Internal Server Error''
       (if isDevelopment then m else ''An unexpected error occurred'')"
  by (simp add: errorHandler_def new_Error_def)


subsection \<open>Authorization\<close>

text \<open>
  C6 (as amended). For every role that is not granted all statements and every statement
  text that starts with none of the role's allowed statements once trimmed and put in
  upper case, \<open>canExecuteStatement\<close> denies. When the leading token of the normalized
  text is one of the keywords \<open>CREATE\<close>, \<open>ALTER\<close>, \<open>DROP\<close>, \<open>TRUNCATE\<close>, \<open>GRANT\<close>,
  \<open>REVOKE\<close>, \<open>EXECUTE\<close>, \<open>EXEC\<close>, the reason names that keyword. More generally the
  reason names a keyword whenever the normalized text starts with one, also when the
  leading token is longer than the keyword, and the reason is the generic one exactly
  when the text starts with no keyword.
\<close>

theorem denial_reason_by_prefix:
  assumes "''*'' \<notin> set (allowedStatements (getRolePermissions role))"
      and "\<forall>st\<in>set (allowedStatements (getRolePermissions role)).
             \<not> startsWith (toUpperCase (trim sqlQuery)) st"
      and "n = toUpperCase (trim sqlQuery)"
  shows "\<not> allowed (canExecuteStatement role sqlQuery)
       \<and> (leading_token n \<in> set ddlKeywords \<longrightarrow>
            canExecuteStatement role sqlQuery = Denied (keyword_reason role (leading_token n)))
       \<and> ((\<exists>k\<in>set ddlKeywords. startsWith n k) \<longrightarrow>
            (\<exists>k\<in>set ddlKeywords. startsWith n k \<and>
               canExecuteStatement role sqlQuery = Denied (keyword_reason role k)))
       \<and> ((\<exists>k\<in>set ddlKeywords. startsWith n k) \<longrightarrow>
            canExecuteStatement role sqlQuery \<noteq> Denied (generic_reason role))
       \<and> ((\<forall>k\<in>set ddlKeywords. \<not> startsWith n k) \<longrightarrow>
            canExecuteStatement role sqlQuery = Denied (generic_reason role))"
proof -
  have none: "find (startsWith n) (allowedStatements (getRolePermissions role)) = None"
    using assms(2,3) by (simp add: find_None_iff)
  have eq: "canExecuteStatement role sqlQuery =
        (case find (startsWith n) ddlKeywords of
           Some keyword \<Rightarrow> Denied (keyword_reason role keyword)
         | None \<Rightarrow> Denied (generic_reason role))"
    using assms(1,3) none by (simp add: canExecuteStatement_def Let_def)
  have 1: "\<not> allowed (canExecuteStatement role sqlQuery)"
    by (simp add: eq split: option.splits)
  have 2: "canExecuteStatement role sqlQuery = Denied (keyword_reason role (leading_token n))"
    if "leading_token n \<in> set ddlKeywords"
    using find_ddl_token [OF that] by (simp add: eq)
  have 3: "\<exists>k\<in>set ddlKeywords. startsWith n k \<and>
               canExecuteStatement role sqlQuery = Denied (keyword_reason role k)"
    if "\<exists>k\<in>set ddlKeywords. startsWith n k"
  proof -
    from that obtain k where "find (startsWith n) ddlKeywords = Some k"
      by (cases "find (startsWith n) ddlKeywords") (auto simp: find_None_iff)
    then show ?thesis using find_in_set [of "startsWith n" ddlKeywords k] by (auto simp: eq)
  qed
  have 4: "canExecuteStatement role sqlQuery = Denied (generic_reason role)"
    if "\<forall>k\<in>set ddlKeywords. \<not> startsWith n k"
  proof -
    from that have "find (startsWith n) ddlKeywords = None" by (simp add: find_None_iff)
    then show ?thesis by (simp add: eq)
  qed
  have 5: "canExecuteStatement role sqlQuery \<noteq> Denied (generic_reason role)"
    if "\<exists>k\<in>set ddlKeywords. startsWith n k"
  proof -
    have ne: "keyword_reason role k \<noteq> generic_reason role" if "k \<in> set ddlKeywords" for k
      using that by (auto simp: keyword_reason_def generic_reason_def ddlKeywords_def)
    from 3 [OF that] obtain k where k: "k \<in> set ddlKeywords"
      and d: "canExecuteStatement role sqlQuery = Denied (keyword_reason role k)"
      by blast
    from ne [OF k] show ?thesis by (simp add: d)
  qed
  from 1 2 3 4 5 show ?thesis by blast
qed

theorem denial_reason_by_prefix_witness:
  "''*'' \<notin> set (allowedStatements (getRolePermissions ''VIEWER''))
   \<and> allowedStatements (getRolePermissions ''VIEWER'') = [''SELECT'']
   \<and> \<not> startsWith (toUpperCase (trim ''  drop table t'')) ''SELECT''
   \<and> leading_token (toUpperCase (trim ''  drop table t'')) \<in> set ddlKeywords
   \<and> canExecuteStatement ''VIEWER'' ''  drop table t''
       = Denied ''Role VIEWER is not permitted to execute DROP statements''
   \<and> \<not> startsWith (toUpperCase (trim ''vacuum'')) ''SELECT''
   \<and> find (startsWith (toUpperCase (trim ''vacuum''))) ddlKeywords = None
   \<and> canExecuteStatement ''VIEWER'' ''vacuum''
       = Denied ''Role VIEWER is not permitted to execute this type of query''"
proof -
  have star: "''*'' \<notin> set (allowedStatements (getRolePermissions ''VIEWER''))"
    by (simp add: role_defs)
  have a1: "\<forall>st\<in>set (allowedStatements (getRolePermissions ''VIEWER'')).
          \<not> startsWith (toUpperCase (trim ''  drop table t'')) st"
    by (simp add: role_defs string_defs)
  have a2: "leading_token (toUpperCase (trim ''  drop table t'')) = ''DROP''"
    by (simp add: leading_token_def string_defs)
  have b1: "\<forall>st\<in>set (allowedStatements (getRolePermissions ''VIEWER'')).
          \<not> startsWith (toUpperCase (trim ''vacuum'')) st"
    by (simp add: role_defs string_defs)
  have b2: "\<forall>k\<in>set ddlKeywords. \<not> startsWith (toUpperCase (trim ''vacuum'')) k"
    by (simp add: ddlKeywords_def string_defs)
  have a3: "canExecuteStatement ''VIEWER'' ''  drop table t''
       = Denied ''Role VIEWER is not permitted to execute DROP statements''"
    using denial_reason_by_prefix [OF star a1 refl] a2
    by (simp add: ddlKeywords_def keyword_reason_def)
  have b3: "canExecuteStatement ''VIEWER'' ''vacuum''
       = Denied ''Role VIEWER is not permitted to execute this type of query''"
    using denial_reason_by_prefix [OF star b1 refl] b2
    by (simp add: generic_reason_def)
  have al: "allowedStatements (getRolePermissions ''VIEWER'') = [''SELECT'']"
    by (simp add: role_defs)
  have b4: "find (startsWith (toUpperCase (trim ''vacuum''))) ddlKeywords = None"
    using b2 by (simp add: find_None_iff)
  from star al a1 a2 a3 b1 b4 b3 show ?thesis
    by (simp add: ddlKeywords_def)
qed

text \<open>
  The claim as first stated also promises the generic reason whenever the leading token
  is not one of the keywords. The statement \<open>DROPS\<close> has the leading token \<open>DROPS\<close>,
  which is not a keyword, and is denied with a reason that names \<open>DROP\<close>.
\<close>

theorem denial_reason_token_counterexample:
  "leading_token (toUpperCase (trim ''DROPS'')) = ''DROPS''
   \<and> ''DROPS'' \<notin> set ddlKeywords
   \<and> canExecuteStatement ''VIEWER'' ''DROPS''
       = Denied ''Role VIEWER is not permitted to execute DROP statements''
   \<and> canExecuteStatement ''VIEWER'' ''DROPS'' \<noteq> Denied (generic_reason ''VIEWER'')"
  by (simp add: leading_token_def canExecuteStatement_def role_defs string_defs
      ddlKeywords_def keyword_reason_def generic_reason_def)

text \<open>
  C4. A submission that the role policy denies throws synchronously and leaves the whole
  broker state as it was: no history record, no pool, no tracked query. For every role of
  \<open>ROLES\<close> the error thrown carries the reason of the policy. (The \<open>catch\<close> block
  replaces the message of an error that contains \<open>cancel\<close>, which the reason does only
  when the role name itself contains it.)
\<close>

theorem denied_submission_changes_nothing:
  assumes "canExecuteStatement userRole sqlQuery = Denied reason"
  shows "executeQuery env cid sqlQuery uid userRole s =
           (Inl (if includes_str userRole ''cancel''
                 then new_Error ''Query cancelled by user'' else new_Error reason), s)
         \<and> (isValidRole userRole \<longrightarrow>
              executeQuery env cid sqlQuery uid userRole s = (Inl (new_Error reason), s))"
proof -
  have c: "is_cancel_error (new_Error reason) = includes_str userRole ''cancel''"
    using denied_reason_cancel [OF assms] denied_reason_nonempty [OF assms]
    by (simp add: is_cancel_error_def new_Error_def)
  have "executeQuery env cid sqlQuery uid userRole s =
           (Inl (if includes_str userRole ''cancel''
                 then new_Error ''Query cancelled by user'' else new_Error reason), s)"
    using assms c
    by (simp add: executeQuery_def executeQuery_begin_def executeQuery_catch_def
        finalize_failure_def deregister_def Let_def)
  then show ?thesis using valid_role_no_cancel by auto
qed

theorem denied_submission_changes_nothing_witness:
  "canExecuteStatement ''VIEWER'' ''DROP TABLE T'' =
     Denied ''Role VIEWER is not permitted to execute DROP statements''
   \<and> isValidRole ''VIEWER''
   \<and> executeQuery (example_env ''q1'' (query_returns [0::nat])) ''c1'' ''DROP TABLE T'' ''u1'' ''VIEWER''
        running_state
      = (Inl (new_Error ''Role VIEWER is not permitted to execute DROP statements''), running_state)"
proof -
  have d: "canExecuteStatement ''VIEWER'' ''DROP TABLE T'' =
     Denied ''Role VIEWER is not permitted to execute DROP statements''"
    by (simp add: canExecuteStatement_def role_defs string_defs ddlKeywords_def keyword_reason_def)
  have v: "isValidRole ''VIEWER''" by (simp add: isValidRole_def ROLES_def role_defs)
  show ?thesis
    using d v denied_submission_changes_nothing [OF d, of "example_env ''q1'' (query_returns [0::nat])" "''c1''" "''u1''" running_state]
    by simp
qed


subsection \<open>History ledger\<close>

text \<open>
  C9. For every record identifier and every update map, \<open>QueryHistoryModel.update\<close>
  leaves the identity of every record (identifier, user, connection, statement text,
  creation time) as it was and leaves every record with another identifier untouched, so
  only \<open>status\<close>, \<open>row_count\<close>, \<open>execution_time_ms\<close>, \<open>error_message\<close> and
  \<open>cancelled_at\<close> can change; keys outside the allow list are ignored; an update without
  an allowed key writes nothing and returns the record as it is found.
\<close>

theorem update_changes_allowed_fields_only:
  "list_all2 same_identity tbl (snd (QueryHistoryModel_update i updates tbl))
   \<and> list_all2 (\<lambda>r r'. id_col r \<noteq> Text i \<longrightarrow> r' = r) tbl
        (snd (QueryHistoryModel_update i updates tbl))
   \<and> QueryHistoryModel_update i updates tbl
       = QueryHistoryModel_update i (filter (\<lambda>(key, v). key \<in> set allowedFields) updates) tbl
   \<and> ((\<forall>(key, v)\<in>set updates. key \<notin> set allowedFields) \<longrightarrow>
        QueryHistoryModel_update i updates tbl = (findById i tbl, tbl))
   \<and> fst (QueryHistoryModel_update i updates tbl)
       = findById i (snd (QueryHistoryModel_update i updates tbl))"
proof -
  have 1: "list_all2 same_identity tbl (snd (QueryHistoryModel_update i updates tbl))"
    unfolding update_table
    by (simp add: list_all2_map2 list_all2_same same_identity_refl collected_identity)
  have 2: "list_all2 (\<lambda>r r'. id_col r \<noteq> Text i \<longrightarrow> r' = r) tbl
        (snd (QueryHistoryModel_update i updates tbl))"
    unfolding update_table by (simp add: list_all2_map2 list_all2_same)
  have 3: "QueryHistoryModel_update i updates tbl
       = QueryHistoryModel_update i (filter (\<lambda>(key, v). key \<in> set allowedFields) updates) tbl"
    by (simp add: QueryHistoryModel_update_def collect_setClauses_filter)
  have 4: "QueryHistoryModel_update i updates tbl = (findById i tbl, tbl)"
    if "\<forall>(key, v)\<in>set updates. key \<notin> set allowedFields"
    using collect_setClauses_none [OF that] by (simp add: QueryHistoryModel_update_def)
  from 1 2 3 4 update_result show ?thesis by blast
qed

theorem update_changes_allowed_fields_only_witness:
  "QueryHistoryModel_update ''q0''
      [(''status'', Text ''success''), (''userId'', Text ''mallory''), (''id'', Text ''zzz'')]
      [old_running_row, recent_success_row]
     = (Some (old_running_row\<lparr>status := Text ''success''\<rparr>),
        [old_running_row\<lparr>status := Text ''success''\<rparr>, recent_success_row])
   \<and> QueryHistoryModel_update ''q0'' [(''userId'', Text ''mallory'')]
        [old_running_row, recent_success_row]
     = (Some old_running_row, [old_running_row, recent_success_row])
   \<and> list_all2 same_identity [old_running_row, recent_success_row]
        (snd (QueryHistoryModel_update ''q0''
           [(''status'', Text ''success''), (''userId'', Text ''mallory''), (''id'', Text ''zzz'')]
           [old_running_row, recent_success_row]))"
proof -
  have none: "\<forall>(key, v)\<in>set [(''userId'', Text ''mallory'')]. key \<notin> set allowedFields"
    by (simp add: allowedFields_def)
  have f: "findById ''q0'' [old_running_row, recent_success_row] = Some old_running_row"
    by (simp add: findById_def sql_select_where_id_def old_running_row_def
        recent_success_row_def inserted_row_def)
  have 1: "QueryHistoryModel_update ''q0''
      [(''status'', Text ''success''), (''userId'', Text ''mallory''), (''id'', Text ''zzz'')]
      [old_running_row, recent_success_row]
     = (Some (old_running_row\<lparr>status := Text ''success''\<rparr>),
        [old_running_row\<lparr>status := Text ''success''\<rparr>, recent_success_row])"
    by (simp add: QueryHistoryModel_update_def allowedFields_def toSnakeCase_def toLowerChar_def
        sql_update_where_id_def set_column_def findById_def sql_select_where_id_def
        old_running_row_def recent_success_row_def inserted_row_def)
  have "(\<forall>(key, v)\<in>set [(''userId'', Text ''mallory'')]. key \<notin> set allowedFields) \<longrightarrow>
        QueryHistoryModel_update ''q0'' [(''userId'', Text ''mallory'')]
          [old_running_row, recent_success_row]
        = (findById ''q0'' [old_running_row, recent_success_row],
           [old_running_row, recent_success_row])"
    using update_changes_allowed_fields_only
         [of "[old_running_row, recent_success_row]" "''q0''" "[(''userId'', Text ''mallory'')]"]
    by blast
  then have "QueryHistoryModel_update ''q0'' [(''userId'', Text ''mallory'')]
          [old_running_row, recent_success_row]
        = (findById ''q0'' [old_running_row, recent_success_row],
           [old_running_row, recent_success_row])"
    using none by (rule mp)
  then have 2: "QueryHistoryModel_update ''q0'' [(''userId'', Text ''mallory'')]
        [old_running_row, recent_success_row]
     = (Some old_running_row, [old_running_row, recent_success_row])"
    by (simp only: f)
  from update_changes_allowed_fields_only
         [of "[old_running_row, recent_success_row]" "''q0''"
             "[(''status'', Text ''success''), (''userId'', Text ''mallory''), (''id'', Text ''zzz'')]"]
  have 3: "list_all2 same_identity [old_running_row, recent_success_row]
        (snd (QueryHistoryModel_update ''q0''
           [(''status'', Text ''success''), (''userId'', Text ''mallory''), (''id'', Text ''zzz'')]
           [old_running_row, recent_success_row]))"
    by blast
  from 1 2 3 show ?thesis by blast
qed

text \<open>
  C7 (as amended). \<open>deleteOlderThan\<close> deletes exactly the records created before the
  cutoff, whatever their status, and returns their number; the records that are not
  older stay, unchanged and in their order.
\<close>

theorem deleteOlderThan_by_age_only:
  "snd (deleteOlderThan cutoffOf days tbl)
     = filter (\<lambda>r. \<not> sql_less_text (created_at r) (cutoffOf days)) tbl
   \<and> (\<forall>r. r \<in> set (snd (deleteOlderThan cutoffOf days tbl)) \<longleftrightarrow>
            r \<in> set tbl \<and> \<not> sql_less_text (created_at r) (cutoffOf days))
   \<and> fst (deleteOlderThan cutoffOf days tbl)
       = length (filter (\<lambda>r. sql_less_text (created_at r) (cutoffOf days)) tbl)
   \<and> fst (deleteOlderThan cutoffOf days tbl) + length (snd (deleteOlderThan cutoffOf days tbl))
       = length tbl"
proof -
  have "length (filter (\<lambda>r. sql_less_text (created_at r) (cutoffOf days)) tbl)
        + length (filter (\<lambda>r. \<not> sql_less_text (created_at r) (cutoffOf days)) tbl) = length tbl"
    by (rule sum_length_filter_compl)
  then show ?thesis
    by (auto simp: deleteOlderThan_def Let_def)
qed

theorem deleteOlderThan_by_age_only_witness:
  "deleteOlderThan (cutoff_at ''2024-05-01T00:00:00.000Z'') 90
      [recent_success_row, old_running_row, recent_success_row]
     = (1, [recent_success_row, recent_success_row])"
proof -
  have "filter (\<lambda>r. \<not> sql_less_text (created_at r) ''2024-05-01T00:00:00.000Z'')
          [recent_success_row, old_running_row, recent_success_row]
        = [recent_success_row, recent_success_row]"
    by (simp add: old_running_row_def recent_success_row_def inserted_row_def)
  moreover have "length (filter (\<lambda>r. sql_less_text (created_at r) ''2024-05-01T00:00:00.000Z'')
          [recent_success_row, old_running_row, recent_success_row]) = 1"
    by (simp add: old_running_row_def recent_success_row_def inserted_row_def)
  ultimately show ?thesis
    using deleteOlderThan_by_age_only
            [of "cutoff_at ''2024-05-01T00:00:00.000Z''" 90
                "[recent_success_row, old_running_row, recent_success_row]"]
    by (simp add: cutoff_at_def prod_eq_iff)
qed

text \<open>
  The claim as first stated keeps every record that is still \<open>running\<close>. A record that
  is \<open>running\<close> and older than the cutoff is deleted like any other.
\<close>

theorem deleteOlderThan_running_counterexample:
  "status old_running_row = Text ''running''
   \<and> \<not> is_terminal (status old_running_row)
   \<and> old_running_row \<in> set [old_running_row, recent_success_row]
   \<and> deleteOlderThan (cutoff_at ''2024-05-01T00:00:00.000Z'') 90
        [old_running_row, recent_success_row] = (1, [recent_success_row])"
  by (simp add: deleteOlderThan_def cutoff_at_def is_terminal_def
      old_running_row_def recent_success_row_def inserted_row_def)


subsection \<open>Query execution\<close>

text \<open>
  C3. When the role allows the statement, every call before the query returns (the
  insert of the history record, the acquisition of the pool, \<open>pool.request()\<close> and
  \<open>request.setTimeout\<close>) and the driver returns a result, \<open>executeQuery\<close> returns a
  response with \<open>returnedRows = min(totalRows, maxRows)\<close> and
  \<open>truncated = (totalRows > maxRows)\<close>, whose data are the first \<open>returnedRows\<close> rows
  of the driver's record set; the history record is updated to \<open>success\<close> with the
  total, uncapped row count, and the query is no longer tracked.
\<close>

theorem executeQuery_caps_rows:
  assumes "allowed (canExecuteStatement userRole sqlQuery)"
      and "insert_history env
             (inserted_row (uuidv4 env) (nowISO env) uid cid sqlQuery ''running'') = None"
      and "fst (getOrCreatePool env cid s) = Inr pool"
      and "new_request env pool = None"
      and "setTimeout env (queryTimeoutMs (getRolePermissions userRole)) = None"
      and "query env sqlQuery = Inr result"
      and "rs = (case recordset result of Some r \<Rightarrow> rows r | None \<Rightarrow> [])"
      and "cap = maxRows (getRolePermissions userRole)"
  shows "\<exists>response s' row.
           executeQuery env cid sqlQuery uid userRole s = (Inr response, s')
         \<and> totalRows response = length rs
         \<and> returnedRows response = min (totalRows response) cap
         \<and> truncated response = (totalRows response > cap)
         \<and> data response = take (returnedRows response) rs
         \<and> findById (queryId response) (query_history s') = Some row
         \<and> status row = Text ''success''
         \<and> row_count row = Integer (int (totalRows response))
         \<and> runningQueries s' (queryId response) = None"
proof -
  from executeQuery_resolved [OF assms(1,2,3,4,5,6)]
  obtain s5 r0 where
    e: "executeQuery env cid sqlQuery uid userRole s
           = (Inr (fst (executeQuery_success (uuidv4 env) (getRolePermissions userRole) result
                     (endTime env - startTime env) s5)),
              snd (executeQuery_success (uuidv4 env) (getRolePermissions userRole) result
                     (endTime env - startTime env) s5))"
    and f: "findById (uuidv4 env) (query_history s5) = Some r0"
    by blast
  let ?response = "fst (executeQuery_success (uuidv4 env) (getRolePermissions userRole) result
                     (endTime env - startTime env) s5)"
  let ?s' = "snd (executeQuery_success (uuidv4 env) (getRolePermissions userRole) result
                     (endTime env - startTime env) s5)"
  let ?row = "r0\<lparr>status := Text ''success'', row_count := Integer (int (length rs)),
                   execution_time_ms := Integer (endTime env - startTime env)\<rparr>"
  have q: "queryId ?response = uuidv4 env"
    by (simp add: executeQuery_success_response)
  have 1: "totalRows ?response = length rs"
    by (simp add: executeQuery_success_response assms(7))
  have 2: "returnedRows ?response = min (totalRows ?response) cap"
    by (simp add: executeQuery_success_response assms(8))
  have 3: "truncated ?response = (totalRows ?response > cap)"
    by (simp add: executeQuery_success_response assms(8))
  have 4: "data ?response = take (returnedRows ?response) rs"
    by (simp add: executeQuery_success_response assms(7) take_min_length)
  have 5: "findById (queryId ?response) (query_history ?s') = Some ?row"
    unfolding q assms(7) by (rule executeQuery_success_history [OF f])
  have 6: "status ?row = Text ''success''" by simp
  have 7: "row_count ?row = Integer (int (totalRows ?response))"
    by (simp add: 1)
  have 8: "runningQueries ?s' (queryId ?response) = None"
    unfolding q by (rule executeQuery_success_deregisters)
  from e 1 2 3 4 5 6 7 8 show ?thesis by blast
qed

theorem executeQuery_caps_rows_witness:
  "\<exists>response s' row.
      executeQuery (example_env ''q1'' (query_returns (replicate 1001 (0::nat))))
        ''c1'' ''SELECT 1'' ''u1'' ''VIEWER'' empty_state = (Inr response, s')
    \<and> totalRows response = 1001
    \<and> returnedRows response = 1000
    \<and> truncated response
    \<and> data response = replicate 1000 0
    \<and> findById (queryId response) (query_history s') = Some row
    \<and> status row = Text ''success''
    \<and> row_count row = Integer 1001"
proof -
  have q: "query (example_env ''q1'' (query_returns (replicate 1001 (0::nat)))) ''SELECT 1''
           = Inr \<lparr>recordset = Some \<lparr>rows = replicate 1001 0, columns = [''n'']\<rparr>\<rparr>"
    by (simp add: example_env_def query_returns_def)
  have cap: "maxRows (getRolePermissions ''VIEWER'') = 1000"
    by (simp add: role_defs)
  from executeQuery_caps_rows
         [where uid = "''u1''", OF viewer_select_allowed example_calls_return(1)
            example_pool_acquired example_calls_return(2) example_calls_return(3) q refl refl]
  obtain response s' row where
    "executeQuery (example_env ''q1'' (query_returns (replicate 1001 (0::nat))))
        ''c1'' ''SELECT 1'' ''u1'' ''VIEWER'' empty_state = (Inr response, s')"
    "totalRows response = 1001"
    "returnedRows response = min (totalRows response) 1000"
    "truncated response = (totalRows response > 1000)"
    "data response = take (returnedRows response) (replicate 1001 0)"
    "findById (queryId response) (query_history s') = Some row"
    "status row = Text ''success''"
    "row_count row = Integer (int (totalRows response))"
    unfolding cap by auto
  then show ?thesis by (intro exI [of _ response] exI [of _ s'] exI [of _ row]) simp
qed

text \<open>
  C10. When every call before the query returns and the driver's result has no record
  set, \<open>executeQuery\<close> returns no data, \<open>totalRows = 0\<close>, \<open>returnedRows = 0\<close> and
  \<open>truncated = false\<close>, and updates the history record to \<open>success\<close> with the row
  count 0, for every role.
\<close>

theorem executeQuery_no_recordset:
  assumes "allowed (canExecuteStatement userRole sqlQuery)"
      and "insert_history env
             (inserted_row (uuidv4 env) (nowISO env) uid cid sqlQuery ''running'') = None"
      and "fst (getOrCreatePool env cid s) = Inr pool"
      and "new_request env pool = None"
      and "setTimeout env (queryTimeoutMs (getRolePermissions userRole)) = None"
      and "query env sqlQuery = Inr result"
      and "recordset result = None"
  shows "\<exists>response s' row.
           executeQuery env cid sqlQuery uid userRole s = (Inr response, s')
         \<and> data response = []
         \<and> totalRows response = 0
         \<and> returnedRows response = 0
         \<and> \<not> truncated response
         \<and> findById (queryId response) (query_history s') = Some row
         \<and> status row = Text ''success''
         \<and> row_count row = Integer 0"
proof -
  from executeQuery_resolved [OF assms(1,2,3,4,5,6)]
  obtain s5 r0 where
    e: "executeQuery env cid sqlQuery uid userRole s
           = (Inr (fst (executeQuery_success (uuidv4 env) (getRolePermissions userRole) result
                     (endTime env - startTime env) s5)),
              snd (executeQuery_success (uuidv4 env) (getRolePermissions userRole) result
                     (endTime env - startTime env) s5))"
    and f: "findById (uuidv4 env) (query_history s5) = Some r0"
    by blast
  let ?response = "fst (executeQuery_success (uuidv4 env) (getRolePermissions userRole) result
                     (endTime env - startTime env) s5)"
  let ?s' = "snd (executeQuery_success (uuidv4 env) (getRolePermissions userRole) result
                     (endTime env - startTime env) s5)"
  let ?row = "r0\<lparr>status := Text ''success'', row_count := Integer 0,
                   execution_time_ms := Integer (endTime env - startTime env)\<rparr>"
  have q: "queryId ?response = uuidv4 env"
    by (simp add: executeQuery_success_response)
  have 1: "data ?response = []"
    by (simp add: executeQuery_success_response assms(7))
  have 2: "totalRows ?response = 0"
    by (simp add: executeQuery_success_response assms(7))
  have 3: "returnedRows ?response = 0"
    by (simp add: executeQuery_success_response assms(7))
  have 4: "\<not> truncated ?response"
    by (simp add: executeQuery_success_response assms(7))
  have 5: "findById (queryId ?response) (query_history ?s') = Some ?row"
    unfolding q using executeQuery_success_history [OF f, of "getRolePermissions userRole" result
        "endTime env - startTime env"]
    by (simp add: assms(7))
  have 6: "status ?row = Text ''success''" by simp
  have 7: "row_count ?row = Integer 0" by simp
  from e 1 2 3 4 5 6 7 show ?thesis by blast
qed

theorem executeQuery_no_recordset_witness:
  "\<exists>response s' row.
      executeQuery (example_env ''q1'' (query_no_recordset :: string \<Rightarrow> js_error + nat driver_result))
        ''c1'' ''UPDATE t SET a = 1'' ''u1'' ''ANALYST'' empty_state = (Inr response, s')
    \<and> data response = []
    \<and> totalRows response = 0
    \<and> returnedRows response = 0
    \<and> \<not> truncated response
    \<and> findById (queryId response) (query_history s') = Some row
    \<and> status row = Text ''success''
    \<and> row_count row = Integer 0"
proof -
  have a: "allowed (canExecuteStatement ''ANALYST'' ''UPDATE t SET a = 1'')"
    by (simp add: canExecuteStatement_def role_defs string_defs)
  have q: "query (example_env ''q1'' (query_no_recordset :: string \<Rightarrow> js_error + nat driver_result))
             ''UPDATE t SET a = 1'' = Inr \<lparr>recordset = None\<rparr>"
    by (simp add: example_env_def query_no_recordset_def)
  have n: "recordset (\<lparr>recordset = None\<rparr> :: nat driver_result) = None" by simp
  show ?thesis
    by (rule executeQuery_no_recordset
          [OF a example_calls_return(1) example_pool_acquired example_calls_return(2)
              example_calls_return(3) q n])
qed

text \<open>
  C8. A failed execution is taken for a cancellation exactly when the message of the error
  contains \<open>cancel\<close>, whichever call of the \<open>try\<close> block threw it. When \<open>create\<close>
  throws, no record exists: the error thrown to the caller is \<open>Query cancelled by user\<close>
  if the message contains \<open>cancel\<close> and the error itself otherwise, and the state is as
  before. When the record exists and the vault, \<open>pool.connect()\<close>, \<open>pool.request()\<close>,
  \<open>request.setTimeout\<close> or \<open>request.query\<close> throws, the record becomes \<open>cancelled\<close>
  with the text \<open>Query cancelled by user\<close> and that error is thrown if the message
  contains \<open>cancel\<close>, whether or not a cancellation was requested; otherwise the record
  becomes \<open>error\<close> with the message of the error, which is thrown again.
\<close>

theorem executeQuery_cancel_by_message:
  assumes "allowed (canExecuteStatement userRole sqlQuery)"
      and "uuidv4 env \<noteq> []"
      and "r = inserted_row (uuidv4 env) (nowISO env) uid cid sqlQuery ''running''"
      and "ms = queryTimeoutMs (getRolePermissions userRole)"
  shows "(insert_history env r = Some err \<longrightarrow>
            executeQuery env cid sqlQuery uid userRole s
              = (Inl (if includes_str (message err) ''cancel''
                      then new_Error ''Query cancelled by user'' else err), s))
       \<and> (insert_history env r = None
          \<and> (fst (getOrCreatePool env cid s) = Inl err
             \<or> fst (getOrCreatePool env cid s) = Inr pool
               \<and> (new_request env pool = Some err
                  \<or> new_request env pool = None
                    \<and> (setTimeout env ms = Some err
                       \<or> setTimeout env ms = None \<and> query env sqlQuery = Inl err))) \<longrightarrow>
          (\<exists>s' row.
             executeQuery env cid sqlQuery uid userRole s
               = (Inl (if includes_str (message err) ''cancel''
                       then new_Error ''Query cancelled by user'' else err), s')
           \<and> findById (uuidv4 env) (query_history s') = Some row
           \<and> status row = (if includes_str (message err) ''cancel''
                            then Text ''cancelled'' else Text ''error'')
           \<and> error_message row = (if includes_str (message err) ''cancel''
                                   then Text ''Query cancelled by user''
                                   else Text (message err))
           \<and> runningQueries s' (uuidv4 env) = None))"
proof -
  have A: "executeQuery env cid sqlQuery uid userRole s
              = (Inl (if includes_str (message err) ''cancel''
                      then new_Error ''Query cancelled by user'' else err), s)"
    if "insert_history env r = Some err"
    using that unfolding assms(3) by (rule executeQuery_create_failed [OF assms(1)])
  have B: "\<exists>s' row.
             executeQuery env cid sqlQuery uid userRole s
               = (Inl (if includes_str (message err) ''cancel''
                       then new_Error ''Query cancelled by user'' else err), s')
           \<and> findById (uuidv4 env) (query_history s') = Some row
           \<and> status row = (if includes_str (message err) ''cancel''
                            then Text ''cancelled'' else Text ''error'')
           \<and> error_message row = (if includes_str (message err) ''cancel''
                                   then Text ''Query cancelled by user''
                                   else Text (message err))
           \<and> runningQueries s' (uuidv4 env) = None"
    if i: "insert_history env r = None"
      and d: "fst (getOrCreatePool env cid s) = Inl err
             \<or> fst (getOrCreatePool env cid s) = Inr pool
               \<and> (new_request env pool = Some err
                  \<or> new_request env pool = None
                    \<and> (setTimeout env ms = Some err
                       \<or> setTimeout env ms = None \<and> query env sqlQuery = Inl err))"
  proof -
    from executeQuery_failed [OF assms(1) i [unfolded assms(3)] d [unfolded assms(4)]]
    obtain s2 r0 where
      e: "executeQuery env cid sqlQuery uid userRole s
           = (Inl (fst (executeQuery_catch (Some (uuidv4 env)) err
                          (endTime env - startTime env) s2)),
              snd (executeQuery_catch (Some (uuidv4 env)) err (endTime env - startTime env) s2))"
      and f: "findById (uuidv4 env) (query_history s2) = Some r0"
      by blast
    let ?s' = "snd (executeQuery_catch (Some (uuidv4 env)) err (endTime env - startTime env) s2)"
    let ?t = "endTime env - startTime env"
    let ?row = "if includes_str (message err) ''cancel''
                 then r0\<lparr>status := Text ''cancelled'', execution_time_ms := Integer ?t,
                         error_message := Text ''Query cancelled by user''\<rparr>
                 else r0\<lparr>status := Text ''error'', execution_time_ms := Integer ?t,
                         error_message := Text (message err)\<rparr>"
    have 1: "executeQuery env cid sqlQuery uid userRole s
             = (Inl (if includes_str (message err) ''cancel''
                     then new_Error ''Query cancelled by user'' else err), ?s')"
      using e by (simp only: executeQuery_catch_thrown)
    have 2: "findById (uuidv4 env) (query_history ?s') = Some ?row"
      by (rule executeQuery_catch_history [OF f assms(2)])
    have 3: "status ?row = (if includes_str (message err) ''cancel''
                          then Text ''cancelled'' else Text ''error'')"
      by simp
    have 4: "error_message ?row = (if includes_str (message err) ''cancel''
                                 then Text ''Query cancelled by user'' else Text (message err))"
      by simp
    have 5: "runningQueries ?s' (uuidv4 env) = None"
      by (rule executeQuery_catch_deregisters)
    from 1 2 3 4 5 show ?thesis by blast
  qed
  from A B show ?thesis by blast
qed

theorem executeQuery_cancel_by_message_witness:
  "(\<exists>s' row.
      executeQuery (example_env ''q1''
          (query_throws (JsError ''RequestError'' ''Connection cancelled by peer'' None)
             :: string \<Rightarrow> js_error + nat driver_result))
        ''c1'' ''SELECT 1'' ''u1'' ''VIEWER'' empty_state
        = (Inl (new_Error ''Query cancelled by user''), s')
    \<and> findById ''q1'' (query_history s') = Some row
    \<and> status row = Text ''cancelled''
    \<and> error_message row = Text ''Query cancelled by user'')
   \<and> (\<exists>s' row.
      executeQuery (example_env ''q1''
          (query_throws (JsError ''RequestError'' ''Canceled.'' None)
             :: string \<Rightarrow> js_error + nat driver_result))
        ''c1'' ''SELECT 1'' ''u1'' ''VIEWER'' empty_state
        = (Inl (JsError ''RequestError'' ''Canceled.'' None), s')
    \<and> findById ''q1'' (query_history s') = Some row
    \<and> status row = Text ''error''
    \<and> error_message row = Text ''Canceled.'')
   \<and> (\<exists>s' row.
      executeQuery ((example_env ''q1'' (query_returns [0::nat]))
          \<lparr>setTimeout := throws (JsError ''TypeError'' ''request.setTimeout is not a function'' None)\<rparr>)
        ''c1'' ''SELECT 1'' ''u1'' ''VIEWER'' empty_state
        = (Inl (JsError ''TypeError'' ''request.setTimeout is not a function'' None), s')
    \<and> findById ''q1'' (query_history s') = Some row
    \<and> status row = Text ''error''
    \<and> error_message row = Text ''request.setTimeout is not a function'')
   \<and> executeQuery ((example_env ''q1'' (query_returns [0::nat]))
          \<lparr>insert_history := throws (JsError ''LibsqlError'' ''FOREIGN KEY constraint failed'' None)\<rparr>)
        ''c9'' ''SELECT 1'' ''u1'' ''VIEWER'' empty_state
        = (Inl (JsError ''LibsqlError'' ''FOREIGN KEY constraint failed'' None), empty_state)"
proof -
  let ?e1 = "JsError ''RequestError'' ''Connection cancelled by peer'' None"
  let ?e2 = "JsError ''RequestError'' ''Canceled.'' None"
  let ?e3 = "JsError ''TypeError'' ''request.setTimeout is not a function'' None"
  let ?e4 = "JsError ''LibsqlError'' ''FOREIGN KEY constraint failed'' None"
  let ?E1 = "example_env ''q1'' (query_throws ?e1 :: string \<Rightarrow> js_error + nat driver_result)"
  let ?E2 = "example_env ''q1'' (query_throws ?e2 :: string \<Rightarrow> js_error + nat driver_result)"
  let ?E3 = "(example_env ''q1'' (query_returns [0::nat]))\<lparr>setTimeout := throws ?e3\<rparr>"
  let ?E4 = "(example_env ''q1'' (query_returns [0::nat]))\<lparr>insert_history := throws ?e4\<rparr>"
  have u: "uuidv4 ?E1 = ''q1''" "uuidv4 ?E2 = ''q1''" "uuidv4 ?E3 = ''q1''" "uuidv4 ?E4 = ''q1''"
    by (simp_all add: example_env_def)
  have ne: "uuidv4 ?E1 \<noteq> []" "uuidv4 ?E2 \<noteq> []" "uuidv4 ?E3 \<noteq> []" "uuidv4 ?E4 \<noteq> []"
    by (simp_all add: u)
  have c: "includes_str (message ?e1) ''cancel''" "\<not> includes_str (message ?e2) ''cancel''"
    "\<not> includes_str (message ?e3) ''cancel''" "\<not> includes_str (message ?e4) ''cancel''"
    by simp_all
  have m: "message ?e2 = ''Canceled.''" "message ?e3 = ''request.setTimeout is not a function''"
    by simp_all
  have cm: "\<not> includes_str ''Canceled.'' ''cancel''"
    "\<not> includes_str ''request.setTimeout is not a function'' ''cancel''"
    by simp_all
  have q1: "query ?E1 ''SELECT 1'' = Inl ?e1" and q2: "query ?E2 ''SELECT 1'' = Inl ?e2"
    by (simp_all add: example_env_def query_throws_def)
  have p3: "fst (getOrCreatePool ?E3 ''c1'' empty_state) = Inr 0"
    by (simp add: pool_defs example_defs)
  have r3: "insert_history ?E3 r = None" "new_request ?E3 0 = None" for r
    by (simp_all add: example_env_def returns_normally_def)
  have t3: "setTimeout ?E3 ms = Some ?e3" for ms
    by (simp add: throws_def)
  have i4: "insert_history ?E4 r = Some ?e4" for r
    by (simp add: throws_def)
  note T1 = executeQuery_cancel_by_message
      [where env = ?E1 and uid = "''u1''" and cid = "''c1''" and err = ?e1 and pool = 0
         and s = empty_state, OF viewer_select_allowed ne(1) refl refl]
  note T2 = executeQuery_cancel_by_message
      [where env = ?E2 and uid = "''u1''" and cid = "''c1''" and err = ?e2 and pool = 0
         and s = empty_state, OF viewer_select_allowed ne(2) refl refl]
  note T3 = executeQuery_cancel_by_message
      [where env = ?E3 and uid = "''u1''" and cid = "''c1''" and err = ?e3 and pool = 0
         and s = empty_state, OF viewer_select_allowed ne(3) refl refl]
  note T4 = executeQuery_cancel_by_message
      [where env = ?E4 and uid = "''u1''" and cid = "''c9''" and err = ?e4 and pool = 0
         and s = empty_state, OF viewer_select_allowed ne(4) refl refl]
  from T1 example_calls_return example_pool_acquired q1
  have "\<exists>s' row.
      executeQuery ?E1 ''c1'' ''SELECT 1'' ''u1'' ''VIEWER'' empty_state
        = (Inl (if includes_str (message ?e1) ''cancel''
                then new_Error ''Query cancelled by user'' else ?e1), s')
    \<and> findById (uuidv4 ?E1) (query_history s') = Some row
    \<and> status row = (if includes_str (message ?e1) ''cancel''
                     then Text ''cancelled'' else Text ''error'')
    \<and> error_message row = (if includes_str (message ?e1) ''cancel''
                            then Text ''Query cancelled by user'' else Text (message ?e1))
    \<and> runningQueries s' (uuidv4 ?E1) = None"
    by blast
  then have A: "\<exists>s' row.
      executeQuery ?E1 ''c1'' ''SELECT 1'' ''u1'' ''VIEWER'' empty_state
        = (Inl (new_Error ''Query cancelled by user''), s')
    \<and> findById ''q1'' (query_history s') = Some row
    \<and> status row = Text ''cancelled''
    \<and> error_message row = Text ''Query cancelled by user''"
    unfolding u by (simp only: c if_True) blast
  from T2 example_calls_return example_pool_acquired q2
  have "\<exists>s' row.
      executeQuery ?E2 ''c1'' ''SELECT 1'' ''u1'' ''VIEWER'' empty_state
        = (Inl (if includes_str (message ?e2) ''cancel''
                then new_Error ''Query cancelled by user'' else ?e2), s')
    \<and> findById (uuidv4 ?E2) (query_history s') = Some row
    \<and> status row = (if includes_str (message ?e2) ''cancel''
                     then Text ''cancelled'' else Text ''error'')
    \<and> error_message row = (if includes_str (message ?e2) ''cancel''
                            then Text ''Query cancelled by user'' else Text (message ?e2))
    \<and> runningQueries s' (uuidv4 ?E2) = None"
    by blast
  then have B: "\<exists>s' row.
      executeQuery ?E2 ''c1'' ''SELECT 1'' ''u1'' ''VIEWER'' empty_state
        = (Inl ?e2, s')
    \<and> findById ''q1'' (query_history s') = Some row
    \<and> status row = Text ''error''
    \<and> error_message row = Text ''Canceled.''"
    unfolding u by (simp only: c cm if_False m) blast
  from T3 r3 p3 t3
  have "\<exists>s' row.
      executeQuery ?E3 ''c1'' ''SELECT 1'' ''u1'' ''VIEWER'' empty_state
        = (Inl (if includes_str (message ?e3) ''cancel''
                then new_Error ''Query cancelled by user'' else ?e3), s')
    \<and> findById (uuidv4 ?E3) (query_history s') = Some row
    \<and> status row = (if includes_str (message ?e3) ''cancel''
                     then Text ''cancelled'' else Text ''error'')
    \<and> error_message row = (if includes_str (message ?e3) ''cancel''
                            then Text ''Query cancelled by user'' else Text (message ?e3))
    \<and> runningQueries s' (uuidv4 ?E3) = None"
    by blast
  then have C: "\<exists>s' row.
      executeQuery ?E3 ''c1'' ''SELECT 1'' ''u1'' ''VIEWER'' empty_state
        = (Inl ?e3, s')
    \<and> findById ''q1'' (query_history s') = Some row
    \<and> status row = Text ''error''
    \<and> error_message row = Text ''request.setTimeout is not a function''"
    unfolding u by (simp only: c cm if_False m) blast
  from T4 i4
  have "executeQuery ?E4 ''c9'' ''SELECT 1'' ''u1'' ''VIEWER'' empty_state
        = (Inl (if includes_str (message ?e4) ''cancel''
                then new_Error ''Query cancelled by user'' else ?e4), empty_state)"
    by blast
  then have D: "executeQuery ?E4 ''c9'' ''SELECT 1'' ''u1'' ''VIEWER'' empty_state
        = (Inl ?e4, empty_state)"
    by (simp only: c if_False)
  from A B C D show ?thesis by blast
qed


subsection \<open>Cancellation and the terminal status\<close>

text \<open>
  C1 (as amended). Each of the three finishing paths writes its own terminal status
  without looking at the status the record already has: the completing \<open>try\<close> block
  writes \<open>success\<close>, the \<open>catch\<close> block \<open>cancelled\<close> or \<open>error\<close>, and
  \<open>cancelQuery\<close>, for a query that is still tracked and owned by the requester,
  \<open>cancelled\<close>. The last write wins. No path writes \<open>running\<close>, so through every
  interleaving of these steps a record keeps its identity and, once its status is
  terminal, its status stays terminal, though it may pass to another terminal status.
\<close>

theorem terminal_status_last_writer:
  "list_all2 keeps_terminal (query_history s) (query_history (run es s))
   \<and> (findById qid (query_history s) \<noteq> None \<longrightarrow>
        status_of qid (step (Query_resolved qid n t) s) = Some (Text ''success''))
   \<and> (findById qid (query_history s) \<noteq> None \<and> qid \<noteq> [] \<longrightarrow>
        status_of qid (step (Query_rejected qid err t) s)
        = Some (if includes_str (message err) ''cancel''
                then Text ''cancelled'' else Text ''error''))
   \<and> (findById qid (query_history s) \<noteq> None
        \<and> (\<exists>e. runningQueries s qid = Some e \<and> userId e = uid) \<longrightarrow>
        status_of qid (step (Cancel_requested qid uid cancelledAt) s) = Some (Text ''cancelled''))"
  using run_keeps_terminal status_after_resolved status_after_rejected status_after_cancel
  by blast

theorem terminal_status_last_writer_witness:
  "list_all2 keeps_terminal (query_history running_state)
     (query_history (run [Query_resolved ''q1'' 1 120,
                          Cancel_requested ''q1'' ''u1'' ''2024-05-01T10:00:01.000Z'']
                       running_state))
   \<and> findById ''q1'' (query_history running_state) \<noteq> None
   \<and> runningQueries running_state ''q1''
       = Some \<lparr>request = 1, userId = ''u1'', connectionId = ''c1''\<rparr>
   \<and> status_of ''q1'' (step (Query_resolved ''q1'' 1 120) running_state) = Some (Text ''success'')
   \<and> status_of ''q1''
        (step (Query_rejected ''q1'' (JsError ''RequestError'' ''Timeout'' None) 120) running_state)
       = Some (Text ''error'')
   \<and> status_of ''q1''
        (step (Cancel_requested ''q1'' ''u1'' ''2024-05-01T10:00:01.000Z'') running_state)
       = Some (Text ''cancelled'')"
proof -
  have f: "findById ''q1'' (query_history running_state) \<noteq> None"
    by (simp add: running_state_found)
  have r: "runningQueries running_state ''q1''
       = Some \<lparr>request = 1, userId = ''u1'', connectionId = ''c1''\<rparr>"
    by (simp add: running_state_eq)
  have o: "\<exists>e. runningQueries running_state ''q1'' = Some e \<and> userId e = ''u1''"
    by (simp add: r)
  have q: "''q1'' \<noteq> []" by simp
  have m: "\<not> includes_str (message (JsError ''RequestError'' ''Timeout'' None)) ''cancel''"
    by simp
  note T = terminal_status_last_writer
             [of running_state
                 "[Query_resolved ''q1'' 1 120,
                   Cancel_requested ''q1'' ''u1'' ''2024-05-01T10:00:01.000Z'']"
                 "''q1''" 1 120 "JsError ''RequestError'' ''Timeout'' None" "''u1''"
                 "''2024-05-01T10:00:01.000Z''"]
  from T have 1: "list_all2 keeps_terminal (query_history running_state)
     (query_history (run [Query_resolved ''q1'' 1 120,
                          Cancel_requested ''q1'' ''u1'' ''2024-05-01T10:00:01.000Z'']
                       running_state))"
    by blast
  from T f have 2: "status_of ''q1'' (step (Query_resolved ''q1'' 1 120) running_state)
                    = Some (Text ''success'')"
    by blast
  from T f q have "status_of ''q1''
        (step (Query_rejected ''q1'' (JsError ''RequestError'' ''Timeout'' None) 120) running_state)
       = Some (if includes_str (message (JsError ''RequestError'' ''Timeout'' None)) ''cancel''
                then Text ''cancelled'' else Text ''error'')"
    by blast
  with m have 3: "status_of ''q1''
        (step (Query_rejected ''q1'' (JsError ''RequestError'' ''Timeout'' None) 120) running_state)
       = Some (Text ''error'')"
    by (simp only: if_False)
  from T f o have 4: "status_of ''q1''
        (step (Cancel_requested ''q1'' ''u1'' ''2024-05-01T10:00:01.000Z'') running_state)
       = Some (Text ''cancelled'')"
    by blast
  from 1 f r 2 3 4 show ?thesis by blast
qed

text \<open>
  The claim as first stated lets no later step write a different status. When the
  query \<open>q1\<close> has completed and its \<open>success\<close> is written, it is still tracked until
  the awaited update returns; a \<open>cancelQuery\<close> that arrives in between finds it and
  writes \<open>cancelled\<close> over \<open>success\<close>.
\<close>

theorem terminal_status_overwritten_counterexample:
  "status_of ''q1'' running_state = Some (Text ''running'')
   \<and> status_of ''q1'' (run [Query_resolved ''q1'' 1 120] running_state)
       = Some (Text ''success'')
   \<and> is_terminal (Text ''success'')
   \<and> status_of ''q1''
        (run [Query_resolved ''q1'' 1 120,
              Cancel_requested ''q1'' ''u1'' ''2024-05-01T10:00:01.000Z''] running_state)
       = Some (Text ''cancelled'')"
  by (simp add: running_state_eq history_eval finalize_success_def cancelQuery_begin_def
      request_cancel_def is_terminal_def)

text \<open>
  C5 (as amended). \<open>cancelQuery\<close> throws \<open>Unauthorized to cancel this query\<close>
  exactly when a query is tracked under the identifier and its owner is not the
  requester, and throws \<open>Query not found or already completed\<close> exactly when none is
  tracked; this second outcome is an error for the caller, which the route answers with
  status 500. When the owner cancels a tracked query, the call returns its
  acknowledgement, \<open>cancel()\<close> has been invoked on the request, the query is no longer
  tracked, and a second cancel made after the first has returned throws
  \<open>Query not found or already completed\<close>.
\<close>

theorem cancelQuery_outcomes:
  "(fst (cancelQuery qid uid cancelledAt s) = Inl (new_Error ''Unauthorized to cancel this query'')
      \<longleftrightarrow> (\<exists>e. runningQueries s qid = Some e \<and> userId e \<noteq> uid))
   \<and> (fst (cancelQuery qid uid cancelledAt s)
         = Inl (new_Error ''Query not found or already completed'')
      \<longleftrightarrow> runningQueries s qid = None)
   \<and> (runningQueries s qid = None \<longrightarrow>
        cancel_route isDevelopment qid uid cancelledAt s
        = (ErrorJson 500 ''Internal Server Error''
             (if isDevelopment then ''Query not found or already completed''
              else ''An unexpected error occurred''), s))
   \<and> (\<forall>e. runningQueries s qid = Some e \<and> userId e = uid \<longrightarrow>
        fst (cancelQuery qid uid cancelledAt s)
          = Inr \<lparr>success = True, result_message = ''Query cancelled''\<rparr>
        \<and> requests (snd (cancelQuery qid uid cancelledAt s)) (request e)
          = map_option (\<lambda>r. r\<lparr>req_cancelled := True\<rparr>) (requests s (request e))
        \<and> runningQueries (snd (cancelQuery qid uid cancelledAt s)) qid = None
        \<and> fst (cancelQuery qid uid' cancelledAt' (snd (cancelQuery qid uid cancelledAt s)))
          = Inl (new_Error ''Query not found or already completed''))"
proof -
  have 1: "fst (cancelQuery qid uid cancelledAt s)
             = Inl (new_Error ''Unauthorized to cancel this query'')
      \<longleftrightarrow> (\<exists>e. runningQueries s qid = Some e \<and> userId e \<noteq> uid)"
  proof (cases "runningQueries s qid")
    case None
    then show ?thesis by (simp add: cancelQuery_notFound new_Error_def)
  next
    case (Some e)
    then show ?thesis
      by (cases "userId e = uid") (simp_all add: cancelQuery_ok cancelQuery_deny)
  qed
  have 2: "fst (cancelQuery qid uid cancelledAt s)
         = Inl (new_Error ''Query not found or already completed'')
      \<longleftrightarrow> runningQueries s qid = None"
  proof (cases "runningQueries s qid")
    case None
    then show ?thesis by (simp add: cancelQuery_notFound)
  next
    case (Some e)
    then show ?thesis
      by (cases "userId e = uid") (simp_all add: cancelQuery_ok cancelQuery_deny new_Error_def)
  qed
  have 3: "cancel_route isDevelopment qid uid cancelledAt s
        = (ErrorJson 500 ''Internal Server Error''
             (if isDevelopment then ''Query not found or already completed''
              else ''An unexpected error occurred''), s)"
    if "runningQueries s qid = None"
    by (simp add: cancel_route_def cancelQuery_notFound [OF that] errorHandler_plain)
  have 4: "fst (cancelQuery qid uid cancelledAt s)
          = Inr \<lparr>success = True, result_message = ''Query cancelled''\<rparr>
        \<and> requests (snd (cancelQuery qid uid cancelledAt s)) (request e)
          = map_option (\<lambda>r. r\<lparr>req_cancelled := True\<rparr>) (requests s (request e))
        \<and> runningQueries (snd (cancelQuery qid uid cancelledAt s)) qid = None
        \<and> fst (cancelQuery qid uid' cancelledAt' (snd (cancelQuery qid uid cancelledAt s)))
          = Inl (new_Error ''Query not found or already completed'')"
    if "runningQueries s qid = Some e \<and> userId e = uid" for e
  proof -
    from that have r: "runningQueries s qid = Some e" and u: "userId e = uid" by simp_all
    have n: "runningQueries (snd (cancelQuery qid uid cancelledAt s)) qid = None"
      by (simp add: cancelQuery_ok [OF r u] deregister_removes)
    show ?thesis
      using n
      by (simp add: cancelQuery_ok [OF r u] deregister_requests history_update_frame
          request_cancel_marks cancelQuery_notFound)
  qed
  from 1 2 3 4 show ?thesis by blast
qed

theorem cancelQuery_outcomes_witness:
  "runningQueries running_state ''q1''
     = Some \<lparr>request = 1, userId = ''u1'', connectionId = ''c1''\<rparr>
   \<and> fst (cancelQuery ''q1'' ''u1'' ''2024-05-01T10:00:01.000Z'' running_state)
       = Inr \<lparr>success = True, result_message = ''Query cancelled''\<rparr>
   \<and> requests (snd (cancelQuery ''q1'' ''u1'' ''2024-05-01T10:00:01.000Z'' running_state)) 1
       = Some \<lparr>req_pool = 0, req_timeout = Some 30000, req_cancelled = True\<rparr>
   \<and> fst (cancelQuery ''q1'' ''u1'' ''2024-05-01T10:00:02.000Z''
            (snd (cancelQuery ''q1'' ''u1'' ''2024-05-01T10:00:01.000Z'' running_state)))
       = Inl (new_Error ''Query not found or already completed'')
   \<and> fst (cancelQuery ''q1'' ''u2'' ''2024-05-01T10:00:01.000Z'' running_state)
       = Inl (new_Error ''Unauthorized to cancel this query'')
   \<and> runningQueries running_state ''q7'' = None
   \<and> cancel_route True ''q7'' ''u1'' ''2024-05-01T10:00:01.000Z'' running_state
       = (ErrorJson 500 ''Internal Server Error'' ''Query not found or already completed'',
          running_state)"
proof -
  let ?e = "\<lparr>request = 1, userId = ''u1'', connectionId = ''c1''\<rparr>"
  have r: "runningQueries running_state ''q1'' = Some ?e"
    by (simp add: running_state_eq)
  have ru: "runningQueries running_state ''q1'' = Some ?e \<and> userId ?e = ''u1''"
    using r by simp
  have rq: "requests running_state (request ?e)
            = Some \<lparr>req_pool = 0, req_timeout = Some 30000, req_cancelled = False\<rparr>"
    by (simp add: running_state_eq)
  have d: "\<exists>e. runningQueries running_state ''q1'' = Some e \<and> userId e \<noteq> ''u2''"
    using r by simp
  have n: "runningQueries running_state ''q7'' = None"
    by (simp add: running_state_eq)
  note A = cancelQuery_outcomes
             [of "''q1''" "''u1''" "''2024-05-01T10:00:01.000Z''" running_state True
                 "''u1''" "''2024-05-01T10:00:02.000Z''"]
  from A ru have
    1: "fst (cancelQuery ''q1'' ''u1'' ''2024-05-01T10:00:01.000Z'' running_state)
          = Inr \<lparr>success = True, result_message = ''Query cancelled''\<rparr>"
    and 2: "requests (snd (cancelQuery ''q1'' ''u1'' ''2024-05-01T10:00:01.000Z'' running_state))
              (request ?e)
          = map_option (\<lambda>r. r\<lparr>req_cancelled := True\<rparr>) (requests running_state (request ?e))"
    and 3: "fst (cancelQuery ''q1'' ''u1'' ''2024-05-01T10:00:02.000Z''
            (snd (cancelQuery ''q1'' ''u1'' ''2024-05-01T10:00:01.000Z'' running_state)))
          = Inl (new_Error ''Query not found or already completed'')"
    by (blast, blast, blast)
  from 2 rq have c2: "requests (snd (cancelQuery ''q1'' ''u1'' ''2024-05-01T10:00:01.000Z''
                        running_state)) 1
       = Some \<lparr>req_pool = 0, req_timeout = Some 30000, req_cancelled = True\<rparr>"
    by simp
  from cancelQuery_outcomes
         [of "''q1''" "''u2''" "''2024-05-01T10:00:01.000Z''" running_state True
             "''u1''" "''2024-05-01T10:00:02.000Z''"] d
  have 4: "fst (cancelQuery ''q1'' ''u2'' ''2024-05-01T10:00:01.000Z'' running_state)
       = Inl (new_Error ''Unauthorized to cancel this query'')"
    by blast
  from cancelQuery_outcomes
         [of "''q7''" "''u1''" "''2024-05-01T10:00:01.000Z''" running_state True
             "''u1''" "''2024-05-01T10:00:02.000Z''"] n
  have 5: "cancel_route True ''q7'' ''u1'' ''2024-05-01T10:00:01.000Z'' running_state
       = (ErrorJson 500 ''Internal Server Error'' ''Query not found or already completed'',
          running_state)"
    by simp
  from r 1 c2 3 4 n 5 show ?thesis by blast
qed

text \<open>
  The claim as first stated makes the outcome for an untracked identifier no error for
  the caller, and gives every second cancel that outcome. The call throws, and the
  route answers with status 500 as it does for a requester who is not the owner; and
  while the first cancel awaits its history update the query is still tracked, so a
  second cancel that arrives then is carried out as well.
\<close>

theorem cancelQuery_notFound_counterexample:
  "runningQueries empty_state ''q1'' = None
   \<and> fst (cancelQuery ''q1'' ''u1'' ''2024-05-01T10:00:01.000Z'' empty_state)
       = Inl (new_Error ''Query not found or already completed'')
   \<and> fst (cancel_route False ''q1'' ''u1'' ''2024-05-01T10:00:01.000Z'' empty_state)
       = ErrorJson 500 ''Internal Server Error'' ''An unexpected error occurred''
   \<and> fst (cancel_route False ''q1'' ''u2'' ''2024-05-01T10:00:01.000Z'' running_state)
       = ErrorJson 500 ''Internal Server Error'' ''An unexpected error occurred''
   \<and> \<not> isl (cancelQuery_begin ''q1'' ''u1'' ''2024-05-01T10:00:02.000Z''
              (step (Cancel_requested ''q1'' ''u1'' ''2024-05-01T10:00:01.000Z'') running_state))"
proof -
  have 1: "runningQueries empty_state ''q1'' = None"
    by (simp add: empty_state_def)
  have 2: "fst (cancelQuery ''q1'' ''u1'' ''2024-05-01T10:00:01.000Z'' empty_state)
       = Inl (new_Error ''Query not found or already completed'')"
    by (simp add: cancelQuery_notFound [OF 1])
  have 3: "fst (cancel_route False ''q1'' ''u1'' ''2024-05-01T10:00:01.000Z'' empty_state)
       = ErrorJson 500 ''Internal Server Error'' ''An unexpected error occurred''"
    by (simp add: cancel_route_def cancelQuery_notFound [OF 1] errorHandler_plain)
  have r: "runningQueries running_state ''q1''
           = Some \<lparr>request = 1, userId = ''u1'', connectionId = ''c1''\<rparr>"
    by (simp add: running_state_eq)
  have 4: "fst (cancel_route False ''q1'' ''u2'' ''2024-05-01T10:00:01.000Z'' running_state)
       = ErrorJson 500 ''Internal Server Error'' ''An unexpected error occurred''"
    by (simp add: cancel_route_def cancelQuery_deny [OF r] errorHandler_plain)
  have 5: "\<not> isl (cancelQuery_begin ''q1'' ''u1'' ''2024-05-01T10:00:02.000Z''
              (step (Cancel_requested ''q1'' ''u1'' ''2024-05-01T10:00:01.000Z'') running_state))"
    by (simp add: cancelQuery_begin_owner [OF r] cancelQuery_begin_def history_update_frame
        request_cancel_frame r)
  from 1 2 3 4 5 show ?thesis by blast
qed


subsection \<open>Connection pool registry\<close>

text \<open>
  C2. Every later acquire for a connection whose pool is registered and connected should
  return that pool. \<open>_getOrCreatePool\<close> looks the pool up under the key of
  \<open>{ server: connectionId }\<close>, which is \<open>c1_undefined\<close> for the connection \<open>c1\<close>, and
  registers it under the key of the decrypted configuration, \<open>db.example.com_sales\<close>.
  The second acquire therefore finds nothing, creates the pool 1 beside the connected
  pool 0 and registers it in its place.
\<close>

theorem getOrCreatePool_twice_two_pools:
  "poolKey \<lparr>server = Some ''c1'', database = None\<rparr> = ''c1_undefined''
   \<and> poolKey example_config = ''db.example.com_sales''
   \<and> fst (getOrCreatePool (example_env ''q1'' (query_returns [0::nat])) ''c1'' empty_state)
       = Inr 0
   \<and> fst (getOrCreatePool (example_env ''q2'' (query_returns [0::nat])) ''c1''
            (snd (getOrCreatePool (example_env ''q1'' (query_returns [0::nat])) ''c1''
                    empty_state)))
       = Inr 1
   \<and> pools (snd (getOrCreatePool (example_env ''q2'' (query_returns [0::nat])) ''c1''
            (snd (getOrCreatePool (example_env ''q1'' (query_returns [0::nat])) ''c1''
                    empty_state)))) 0
       = Some \<lparr>pool_config = example_config, connected = True\<rparr>
   \<and> pools (snd (getOrCreatePool (example_env ''q2'' (query_returns [0::nat])) ''c1''
            (snd (getOrCreatePool (example_env ''q1'' (query_returns [0::nat])) ''c1''
                    empty_state)))) 1
       = Some \<lparr>pool_config = example_config, connected = True\<rparr>
   \<and> sqlPools (snd (getOrCreatePool (example_env ''q2'' (query_returns [0::nat])) ''c1''
            (snd (getOrCreatePool (example_env ''q1'' (query_returns [0::nat])) ''c1''
                    empty_state)))) ''db.example.com_sales''
       = Some 1"
  by (simp add: pool_defs example_defs)

end
